theory Spec2Isabelle
  imports Main "HOL-Library.Sublist"
begin

section \<open>Python values and library functions used by the server\<close>

text \<open>
  The values that travel through \<^verbatim>\<open>src/main.py\<close> are the results of JSON decoding:
  \<^verbatim>\<open>None\<close>, booleans, integers, strings, lists and dictionaries. A dictionary is an
  association list in insertion order whose keys are distinct; lookup takes the first
  entry of a key. A character is a code point below 256. JSON numbers with a fraction or
  an exponent (Python floats) are not part of the model. The diagnostic lines that the
  server prints on standard error are not modelled either: the effects recorded are the
  outbound HTTP requests.
\<close>

datatype json =
    JNull
  | JBool bool
  | JInt int
  | JStr string
  | JArr "json list"
  | JObj "(string \<times> json) list"

text \<open>Truth value testing: \<^verbatim>\<open>if x\<close>, \<^verbatim>\<open>not x\<close>.\<close>

fun truthy :: "json \<Rightarrow> bool" where
  "truthy JNull = False"
| "truthy (JBool b) = b"
| "truthy (JInt n) = (n \<noteq> 0)"
| "truthy (JStr s) = (s \<noteq> [])"
| "truthy (JArr xs) = (xs \<noteq> [])"
| "truthy (JObj kvs) = (kvs \<noteq> [])"

fun type_name :: "json \<Rightarrow> string" where
  "type_name JNull = ''NoneType''"
| "type_name (JBool b) = ''bool''"
| "type_name (JInt n) = ''int''"
| "type_name (JStr s) = ''str''"
| "type_name (JArr xs) = ''list''"
| "type_name (JObj kvs) = ''dict''"

datatype py_exception =
    ValueError string
  | TypeError string
  | AttributeError string
  | TransportError string
  | HTTPStatusError nat string
  | JSONDecodeError string

text \<open>\<^verbatim>\<open>str(error)\<close>: the message the exception was raised with.\<close>

fun exception_str :: "py_exception \<Rightarrow> string" where
  "exception_str (ValueError m) = m"
| "exception_str (TypeError m) = m"
| "exception_str (AttributeError m) = m"
| "exception_str (TransportError m) = m"
| "exception_str (HTTPStatusError st m) = m"
| "exception_str (JSONDecodeError m) = m"

text \<open>\<^verbatim>\<open>d.get(k, default)\<close> on a dictionary, and on any value (only a dictionary has \<^verbatim>\<open>get\<close>).\<close>

definition dict_get :: "(string \<times> json) list \<Rightarrow> string \<Rightarrow> json \<Rightarrow> json" where
  "dict_get d k dflt = (case map_of d k of None \<Rightarrow> dflt | Some v \<Rightarrow> v)"

definition squote :: "string \<Rightarrow> string" where
  "squote s = [CHR 0x27] @ s @ [CHR 0x27]"

definition no_attribute_get :: "json \<Rightarrow> py_exception" where
  "no_attribute_get v =
     AttributeError (squote (type_name v) @ '' object has no attribute '' @ squote ''get'')"

fun py_get :: "json \<Rightarrow> string \<Rightarrow> json \<Rightarrow> py_exception + json" where
  "py_get (JObj d) k dflt = Inr (dict_get d k dflt)"
| "py_get v k dflt = Inl (no_attribute_get v)"

subsection \<open>Decimal and hexadecimal digits\<close>

fun digits :: "nat \<Rightarrow> string" where
  "digits n =
     (if n < 10 then [''0123456789'' ! n]
      else digits (n div 10) @ [''0123456789'' ! (n mod 10)])"

text \<open>The equation of \<open>digits\<close> is unfolded on demand only: as a rewrite rule it would not stop.\<close>

declare digits.simps [simp del]

definition str_int :: "int \<Rightarrow> string" where
  "str_int n = (if n < 0 then ''-'' @ digits (nat (- n)) else digits (nat n))"

definition hex_lower :: "nat \<Rightarrow> char" where
  "hex_lower n = ''0123456789abcdef'' ! (n mod 16)"

definition hex_upper :: "nat \<Rightarrow> char" where
  "hex_upper n = ''0123456789ABCDEF'' ! (n mod 16)"

fun join :: "string \<Rightarrow> string list \<Rightarrow> string" where
  "join sep [] = []"
| "join sep [x] = x"
| "join sep (x # y # ys) = x @ sep @ join sep (y # ys)"

subsection \<open>\<^verbatim>\<open>json.dumps\<close> with its default arguments\<close>

definition json_escape_char :: "char \<Rightarrow> string" where
  "json_escape_char c =
     (if c = CHR 0x5C then [CHR 0x5C, CHR 0x5C]
      else if c = CHR 0x22 then [CHR 0x5C, CHR 0x22]
      else if c = CHR 0x08 then [CHR 0x5C, CHR ''b'']
      else if c = CHR 0x0C then [CHR 0x5C, CHR ''f'']
      else if c = CHR 0x0A then [CHR 0x5C, CHR ''n'']
      else if c = CHR 0x0D then [CHR 0x5C, CHR ''r'']
      else if c = CHR 0x09 then [CHR 0x5C, CHR ''t'']
      else if 32 \<le> (of_char c :: nat) \<and> (of_char c :: nat) \<le> 126 then [c]
      else [CHR 0x5C, CHR ''u'', CHR ''0'', CHR ''0'',
            hex_lower (of_char c div 16), hex_lower (of_char c)])"

definition json_quote :: "string \<Rightarrow> string" where
  "json_quote s = [CHR 0x22] @ concat (map json_escape_char s) @ [CHR 0x22]"

fun json_dumps :: "json \<Rightarrow> string" where
  "json_dumps JNull = ''null''"
| "json_dumps (JBool b) = (if b then ''true'' else ''false'')"
| "json_dumps (JInt n) = str_int n"
| "json_dumps (JStr s) = json_quote s"
| "json_dumps (JArr xs) = ''['' @ join '', '' (map json_dumps xs) @ '']''"
| "json_dumps (JObj kvs) =
     ''{'' @ join '', '' (map (\<lambda>(k, v). json_quote k @ '': '' @ json_dumps v) kvs) @ ''}''"

subsection \<open>\<^verbatim>\<open>str\<close> and \<^verbatim>\<open>repr\<close>\<close>

definition repr_char :: "char \<Rightarrow> char \<Rightarrow> string" where
  "repr_char quote c =
     (let n = (of_char c :: nat) in
      if c = quote \<or> c = CHR 0x5C then [CHR 0x5C, c]
      else if c = CHR 0x09 then [CHR 0x5C, CHR ''t'']
      else if c = CHR 0x0A then [CHR 0x5C, CHR ''n'']
      else if c = CHR 0x0D then [CHR 0x5C, CHR ''r'']
      else if n < 32 \<or> n = 127 \<or> (128 \<le> n \<and> n \<le> 160) \<or> n = 173
        then [CHR 0x5C, CHR ''x'', hex_lower (n div 16), hex_lower n]
      else [c])"

definition repr_str :: "string \<Rightarrow> string" where
  "repr_str s =
     (let quote = (if CHR 0x27 \<in> set s \<and> CHR 0x22 \<notin> set s then CHR 0x22 else CHR 0x27)
      in [quote] @ concat (map (repr_char quote) s) @ [quote])"

fun py_repr :: "json \<Rightarrow> string" where
  "py_repr JNull = ''None''"
| "py_repr (JBool b) = (if b then ''True'' else ''False'')"
| "py_repr (JInt n) = str_int n"
| "py_repr (JStr s) = repr_str s"
| "py_repr (JArr xs) = ''['' @ join '', '' (map py_repr xs) @ '']''"
| "py_repr (JObj kvs) =
     ''{'' @ join '', '' (map (\<lambda>(k, v). repr_str k @ '': '' @ py_repr v) kvs) @ ''}''"

fun py_str :: "json \<Rightarrow> string" where
  "py_str (JStr s) = s"
| "py_str v = py_repr v"

subsection \<open>\<^verbatim>\<open>urllib.parse.urlencode\<close> of a dictionary\<close>

definition url_safe :: "char \<Rightarrow> bool" where
  "url_safe c =
     (let n = (of_char c :: nat) in
      (48 \<le> n \<and> n \<le> 57) \<or> (65 \<le> n \<and> n \<le> 90) \<or> (97 \<le> n \<and> n \<le> 122)
      \<or> c = CHR ''_'' \<or> c = CHR ''.'' \<or> c = CHR ''-'' \<or> c = CHR ''~'')"

definition percent :: "nat \<Rightarrow> string" where
  "percent b = [CHR ''%'', hex_upper (b div 16), hex_upper b]"

definition quote_plus_char :: "char \<Rightarrow> string" where
  "quote_plus_char c =
     (let n = (of_char c :: nat) in
      if url_safe c then [c]
      else if c = CHR '' '' then ''+''
      else if n < 128 then percent n
      else percent (192 + n div 64) @ percent (128 + n mod 64))"

definition quote_plus :: "string \<Rightarrow> string" where
  "quote_plus s = concat (map quote_plus_char s)"

definition urlencode :: "(string \<times> json) list \<Rightarrow> string" where
  "urlencode query =
     join ''&'' (map (\<lambda>(k, v). quote_plus k @ ''='' @ quote_plus (py_str v)) query)"

subsection \<open>\<^verbatim>\<open>min(limit, 200)\<close>\<close>

text \<open>
  \<^verbatim>\<open>min(a, b)\<close> returns \<^verbatim>\<open>b\<close> when \<^verbatim>\<open>b < a\<close> and \<^verbatim>\<open>a\<close> otherwise. The second argument is
  always the integer 200 in this program; comparing it with anything but an integer or a
  boolean raises \<^verbatim>\<open>TypeError\<close>.
\<close>

definition not_supported :: "json \<Rightarrow> py_exception" where
  "not_supported v =
     TypeError (squote ''<'' @ '' not supported between instances of '' @ squote ''int''
                @ '' and '' @ squote (type_name v))"

fun min_200 :: "json \<Rightarrow> py_exception + json" where
  "min_200 (JInt n) = Inr (if 200 < n then JInt 200 else JInt n)"
| "min_200 (JBool b) = Inr (JBool b)"
| "min_200 v = Inl (not_supported v)"

section \<open>The outside world\<close>

text \<open>
  A request as it is handed to \<^verbatim>\<open>httpx\<close>: the URL, the headers, the \<^verbatim>\<open>params\<close> keyword
  (empty when the query is already part of the URL) and the \<^verbatim>\<open>json\<close> keyword.
\<close>

datatype http_method = GET | POST

record http_request =
  req_method :: http_method
  req_url :: string
  req_headers :: "(string \<times> string) list"
  req_params :: "(string \<times> json) list"
  req_json :: "json option"

text \<open>
  What \<^verbatim>\<open>httpx\<close> answers: the call itself raises (\<open>Failed\<close> with the exception's text), or
  it returns a response with a status code, the text that \<^verbatim>\<open>raise_for_status\<close> would put
  in its exception, and the outcome of \<^verbatim>\<open>response.json()\<close> (\<open>Inl\<close> the text of the decoding
  error, \<open>Inr\<close> the decoded body).
\<close>

record http_response =
  status_code :: nat
  status_text :: string
  json_result :: "string + json"

datatype http_outcome = Failed string | Replied http_response

text \<open>
  The environment of one invocation: the process environment variables and the network.
\<close>

record env =
  environ :: "string \<Rightarrow> string option"
  network :: "http_request \<Rightarrow> http_outcome"

text \<open>
  The outbound calls of an invocation, in order, each marked with the code that made it:
  \<^verbatim>\<open>nango_credentials\<close> (the credential broker) or a method of \<^verbatim>\<open>SlackClient\<close>.
\<close>

datatype outbound = BrokerCall http_request | SlackCall http_request

definition getenv :: "env \<Rightarrow> string \<Rightarrow> json" where
  "getenv e k = (case environ e k of None \<Rightarrow> JNull | Some v \<Rightarrow> JStr v)"

text \<open>
  \<^verbatim>\<open>response.raise_for_status()\<close> returns for a status from 200 to 299 and raises
  \<^verbatim>\<open>HTTPStatusError\<close> for every other status.
\<close>

definition is_success :: "nat \<Rightarrow> bool" where
  "is_success st = (200 \<le> st \<and> st \<le> 299)"

definition raise_for_status :: "http_response \<Rightarrow> py_exception + http_response" where
  "raise_for_status response =
     (if is_success (status_code response) then Inr response
      else Inl (HTTPStatusError (status_code response) (status_text response)))"

definition response_json :: "http_response \<Rightarrow> py_exception + json" where
  "response_json response =
     (case json_result response of Inl m \<Rightarrow> Inl (JSONDecodeError m) | Inr j \<Rightarrow> Inr j)"

section \<open>SlackClient\<close>

record slack_client =
  bot_headers :: "(string \<times> string) list"
  team_id :: json

definition SlackClient :: "json \<Rightarrow> json \<Rightarrow> slack_client" where
  "SlackClient bot_token tid =
     \<lparr>bot_headers = [(''Authorization'', ''Bearer '' @ py_str bot_token),
                     (''Content-Type'', ''application/json'')],
      team_id = tid\<rparr>"

text \<open>
  Every method ends the same way: one call through \<^verbatim>\<open>httpx.AsyncClient\<close>, then
  \<^verbatim>\<open>response.json()\<close>.
\<close>

definition slack_call :: "env \<Rightarrow> http_request \<Rightarrow> (py_exception + json) \<times> outbound list" where
  "slack_call e request =
     (case network e request of
        Failed m \<Rightarrow> Inl (TransportError m)
      | Replied response \<Rightarrow> response_json response,
      [SlackCall request])"

definition slack_get :: "slack_client \<Rightarrow> string \<Rightarrow> (string \<times> json) list \<Rightarrow> http_request" where
  "slack_get self endpoint query =
     \<lparr>req_method = GET, req_url = endpoint @ ''?'' @ urlencode query,
      req_headers = bot_headers self, req_params = [], req_json = None\<rparr>"

definition slack_post :: "slack_client \<Rightarrow> string \<Rightarrow> (string \<times> json) list \<Rightarrow> http_request" where
  "slack_post self endpoint body =
     \<lparr>req_method = POST, req_url = endpoint,
      req_headers = bot_headers self, req_params = [], req_json = Some (JObj body)\<rparr>"

definition get_channels ::
  "env \<Rightarrow> slack_client \<Rightarrow> json \<Rightarrow> json \<Rightarrow> (py_exception + json) \<times> outbound list" where
  "get_channels e self limit cursor =
     (case min_200 limit of
        Inl err \<Rightarrow> (Inl err, [])
      | Inr m \<Rightarrow>
          (let params = [(''types'', JStr ''public_channel''),
                         (''exclude_archived'', JStr ''true''),
                         (''limit'', JStr (py_str m)),
                         (''team_id'', team_id self)];
               params' = (if truthy cursor then params @ [(''cursor'', cursor)] else params)
           in slack_call e (slack_get self ''https://slack.com/api/conversations.list'' params')))"

text \<open>
  The condition of \<^verbatim>\<open>get_conversation_info\<close>, evaluated left to right with the short
  circuit of \<^verbatim>\<open>and\<close>; when it fails the method falls off its end and returns \<^verbatim>\<open>None\<close>.
\<close>

definition channel_or_none :: "json \<Rightarrow> py_exception + json" where
  "channel_or_none data =
     (case py_get data ''ok'' JNull of
        Inl err \<Rightarrow> Inl err
      | Inr ok \<Rightarrow>
          if \<not> truthy ok then Inr JNull
          else (case py_get data ''channel'' JNull of
                  Inl err \<Rightarrow> Inl err
                | Inr channel \<Rightarrow>
                    if \<not> truthy channel then Inr JNull
                    else (case py_get channel ''is_archived'' JNull of
                            Inl err \<Rightarrow> Inl err
                          | Inr archived \<Rightarrow>
                              if \<not> truthy archived then Inr channel else Inr JNull)))"

definition get_conversation_info ::
  "env \<Rightarrow> slack_client \<Rightarrow> json \<Rightarrow> (py_exception + json) \<times> outbound list" where
  "get_conversation_info e self channel_id =
     (let params = [(''channel'', channel_id)];
          (response, calls) =
             slack_call e (slack_get self ''https://slack.com/api/conversations.info'' params)
      in (case response of Inl err \<Rightarrow> Inl err | Inr data \<Rightarrow> channel_or_none data, calls))"

definition post_message ::
  "env \<Rightarrow> slack_client \<Rightarrow> json \<Rightarrow> json \<Rightarrow> (py_exception + json) \<times> outbound list" where
  "post_message e self channel_id text =
     slack_call e (slack_post self ''https://slack.com/api/chat.postMessage''
       [(''channel'', channel_id), (''text'', text)])"

definition post_reply ::
  "env \<Rightarrow> slack_client \<Rightarrow> json \<Rightarrow> json \<Rightarrow> json \<Rightarrow> (py_exception + json) \<times> outbound list" where
  "post_reply e self channel_id thread_ts text =
     slack_call e (slack_post self ''https://slack.com/api/chat.postMessage''
       [(''channel'', channel_id), (''thread_ts'', thread_ts), (''text'', text)])"

definition add_reaction ::
  "env \<Rightarrow> slack_client \<Rightarrow> json \<Rightarrow> json \<Rightarrow> json \<Rightarrow> (py_exception + json) \<times> outbound list" where
  "add_reaction e self channel_id timestamp reaction =
     slack_call e (slack_post self ''https://slack.com/api/reactions.add''
       [(''channel'', channel_id), (''timestamp'', timestamp), (''name'', reaction)])"

definition get_channel_history ::
  "env \<Rightarrow> slack_client \<Rightarrow> json \<Rightarrow> json \<Rightarrow> (py_exception + json) \<times> outbound list" where
  "get_channel_history e self channel_id limit =
     slack_call e (slack_get self ''https://slack.com/api/conversations.history''
       [(''channel'', channel_id), (''limit'', JStr (py_str limit))])"

definition get_thread_replies ::
  "env \<Rightarrow> slack_client \<Rightarrow> json \<Rightarrow> json \<Rightarrow> (py_exception + json) \<times> outbound list" where
  "get_thread_replies e self channel_id thread_ts =
     slack_call e (slack_get self ''https://slack.com/api/conversations.replies''
       [(''channel'', channel_id), (''ts'', thread_ts)])"

definition get_users ::
  "env \<Rightarrow> slack_client \<Rightarrow> json \<Rightarrow> json \<Rightarrow> (py_exception + json) \<times> outbound list" where
  "get_users e self limit cursor =
     (case min_200 limit of
        Inl err \<Rightarrow> (Inl err, [])
      | Inr m \<Rightarrow>
          (let params = [(''limit'', JStr (py_str m)), (''team_id'', team_id self)];
               params' = (if truthy cursor then params @ [(''cursor'', cursor)] else params)
           in slack_call e (slack_get self ''https://slack.com/api/users.list'' params')))"

definition get_user_profile ::
  "env \<Rightarrow> slack_client \<Rightarrow> json \<Rightarrow> (py_exception + json) \<times> outbound list" where
  "get_user_profile e self user_id =
     slack_call e (slack_get self ''https://slack.com/api/users.profile.get''
       [(''user'', user_id), (''include_labels'', JStr ''true'')])"

section \<open>Tool definitions\<close>

record tool =
  tool_name :: string
  tool_description :: string
  inputSchema :: json

definition TOOLS :: "tool list" where
  "TOOLS = [
    \<lparr>tool_name = ''slack_list_channels'',
     tool_description = ''List public or pre-defined channels in the workspace with pagination'',
     inputSchema = JObj [
       (''type'', JStr ''object''),
       (''properties'', JObj [
         (''limit'', JObj [
           (''type'', JStr ''number''),
           (''description'', JStr ''Maximum number of channels to return (default 100, max 200)''),
           (''default'', JInt 100)]),
         (''cursor'', JObj [
           (''type'', JStr ''string''),
           (''description'', JStr ''Pagination cursor for next page of results'')])])]\<rparr>,
    \<lparr>tool_name = ''slack_post_message'',
     tool_description = ''Post a new message to a Slack channel'',
     inputSchema = JObj [
       (''type'', JStr ''object''),
       (''properties'', JObj [
         (''channel_id'', JObj [
           (''type'', JStr ''string''),
           (''description'', JStr ''The ID of the channel to post to'')]),
         (''text'', JObj [
           (''type'', JStr ''string''),
           (''description'', JStr ''The message text to post'')])]),
       (''required'', JArr [JStr ''channel_id'', JStr ''text''])]\<rparr>,
    \<lparr>tool_name = ''slack_reply_to_thread'',
     tool_description = ''Reply to a specific message thread in Slack'',
     inputSchema = JObj [
       (''type'', JStr ''object''),
       (''properties'', JObj [
         (''channel_id'', JObj [
           (''type'', JStr ''string''),
           (''description'', JStr ''The ID of the channel containing the thread'')]),
         (''thread_ts'', JObj [
           (''type'', JStr ''string''),
           (''description'', JStr ''The timestamp of the parent message in the format '1234567890.123456'. Timestamps in the format without the period can be converted by adding the period such that 6 numbers come after it.'')]),
         (''text'', JObj [
           (''type'', JStr ''string''),
           (''description'', JStr ''The reply text'')])]),
       (''required'', JArr [JStr ''channel_id'', JStr ''thread_ts'', JStr ''text''])]\<rparr>,
    \<lparr>tool_name = ''slack_add_reaction'',
     tool_description = ''Add a reaction emoji to a message'',
     inputSchema = JObj [
       (''type'', JStr ''object''),
       (''properties'', JObj [
         (''channel_id'', JObj [
           (''type'', JStr ''string''),
           (''description'', JStr ''The ID of the channel containing the message'')]),
         (''timestamp'', JObj [
           (''type'', JStr ''string''),
           (''description'', JStr ''The timestamp of the message to react to'')]),
         (''reaction'', JObj [
           (''type'', JStr ''string''),
           (''description'', JStr ''The name of the emoji reaction (without ::)'')])]),
       (''required'', JArr [JStr ''channel_id'', JStr ''timestamp'', JStr ''reaction''])]\<rparr>,
    \<lparr>tool_name = ''slack_get_channel_history'',
     tool_description = ''Get recent messages from a channel'',
     inputSchema = JObj [
       (''type'', JStr ''object''),
       (''properties'', JObj [
         (''channel_id'', JObj [
           (''type'', JStr ''string''),
           (''description'', JStr ''The ID of the channel'')]),
         (''limit'', JObj [
           (''type'', JStr ''number''),
           (''description'', JStr ''Number of messages to retrieve (default 10)''),
           (''default'', JInt 10)])]),
       (''required'', JArr [JStr ''channel_id''])]\<rparr>,
    \<lparr>tool_name = ''slack_get_thread_replies'',
     tool_description = ''Get all replies in a message thread'',
     inputSchema = JObj [
       (''type'', JStr ''object''),
       (''properties'', JObj [
         (''channel_id'', JObj [
           (''type'', JStr ''string''),
           (''description'', JStr ''The ID of the channel containing the thread'')]),
         (''thread_ts'', JObj [
           (''type'', JStr ''string''),
           (''description'', JStr ''The timestamp of the parent message in the format '1234567890.123456'. Timestamps in the format without the period can be converted by adding the period such that 6 numbers come after it.'')])]),
       (''required'', JArr [JStr ''channel_id'', JStr ''thread_ts''])]\<rparr>,
    \<lparr>tool_name = ''slack_get_users'',
     tool_description = ''Get a list of all users in the workspace with their basic profile information'',
     inputSchema = JObj [
       (''type'', JStr ''object''),
       (''properties'', JObj [
         (''cursor'', JObj [
           (''type'', JStr ''string''),
           (''description'', JStr ''Pagination cursor for next page of results'')]),
         (''limit'', JObj [
           (''type'', JStr ''number''),
           (''description'', JStr ''Maximum number of users to return (default 100, max 200)''),
           (''default'', JInt 100)])])]\<rparr>,
    \<lparr>tool_name = ''slack_get_user_profile'',
     tool_description = ''Get detailed profile information for a specific user'',
     inputSchema = JObj [
       (''type'', JStr ''object''),
       (''properties'', JObj [
         (''user_id'', JObj [
           (''type'', JStr ''string''),
           (''description'', JStr ''The ID of the user'')])]),
       (''required'', JArr [JStr ''user_id''])]\<rparr>,
    \<lparr>tool_name = ''get_conversation_info'',
     tool_description = ''Get information about a specific conversation (channel or DM)'',
     inputSchema = JObj [
       (''type'', JStr ''object''),
       (''properties'', JObj [
         (''channel_id'', JObj [
           (''type'', JStr ''string''),
           (''description'', JStr ''The ID of the channel or conversation'')])]),
       (''required'', JArr [JStr ''channel_id''])]\<rparr>]"

text \<open>The names a tool's schema lists under \<^verbatim>\<open>required\<close> (none when the key is absent).\<close>

fun strings_of :: "json list \<Rightarrow> string list" where
  "strings_of [] = []"
| "strings_of (JStr s # xs) = s # strings_of xs"
| "strings_of (x # xs) = strings_of xs"

definition required_arguments :: "tool \<Rightarrow> string list" where
  "required_arguments t =
     (case py_get (inputSchema t) ''required'' (JArr []) of
        Inr (JArr xs) \<Rightarrow> strings_of xs
      | _ \<Rightarrow> [])"

section \<open>The credential fetch\<close>

definition nango_request :: "env \<Rightarrow> json \<Rightarrow> json \<Rightarrow> http_request" where
  "nango_request e connection_id integration_id =
     (let base_url = getenv e ''NANGO_BASE_URL'';
          secret_key = getenv e ''NANGO_SECRET_KEY''
      in \<lparr>req_method = GET,
          req_url = py_str base_url @ ''/connection/'' @ py_str connection_id,
          req_headers = [(''Authorization'', ''Bearer '' @ py_str secret_key)],
          req_params = [(''provider_config_key'', integration_id),
                        (''refresh_token'', JStr ''true'')],
          req_json = None\<rparr>)"

definition nango_credentials ::
  "env \<Rightarrow> json \<Rightarrow> json \<Rightarrow> (py_exception + json) \<times> outbound list" where
  "nango_credentials e connection_id integration_id =
     (let request = nango_request e connection_id integration_id
      in (case network e request of
            Failed m \<Rightarrow> Inl (TransportError m)
          | Replied response \<Rightarrow>
              (case raise_for_status response of
                 Inl err \<Rightarrow> Inl err
               | Inr r \<Rightarrow> response_json r),
          [BrokerCall request]))"

section \<open>The server's handlers\<close>

datatype text_content = TextContent (content_type: string) (content_text: string)

definition list_tools :: "tool list \<times> outbound list" where
  "list_tools = (TOOLS, [])"

text \<open>
  The first statements of \<^verbatim>\<open>call_tool\<close>, before its \<^verbatim>\<open>try\<close>: the credentials are fetched,
  the token and the team are read from them (\<^verbatim>\<open>credentials.get(outer, {}).get(inner)\<close>) and the
  client is constructed.
\<close>

definition get_nested :: "json \<Rightarrow> string \<Rightarrow> string \<Rightarrow> py_exception + json" where
  "get_nested v outer inner =
     (case py_get v outer (JObj []) of
        Inl err \<Rightarrow> Inl err
      | Inr d \<Rightarrow> py_get d inner JNull)"

definition fetch_client :: "env \<Rightarrow> (py_exception + slack_client) \<times> outbound list" where
  "fetch_client e =
     (let (fetched, calls) =
            nango_credentials e (getenv e ''NANGO_CONNECTION_ID'')
                                (getenv e ''NANGO_INTEGRATION_ID'')
      in (case fetched of
            Inl err \<Rightarrow> Inl err
          | Inr credentials \<Rightarrow>
              (case get_nested credentials ''credentials'' ''access_token'' of
                 Inl err \<Rightarrow> Inl err
               | Inr bot_token \<Rightarrow>
                   (case get_nested credentials ''connection_config'' ''team.id'' of
                      Inl err \<Rightarrow> Inl err
                    | Inr tid \<Rightarrow> Inr (SlackClient bot_token tid))),
          calls))"

definition text_result :: "json \<Rightarrow> text_content list" where
  "text_result response = [TextContent ''text'' (json_dumps response)]"

definition returning ::
  "(py_exception + json) \<times> outbound list \<Rightarrow> (py_exception + text_content list) \<times> outbound list"
  where
  "returning r =
     (case r of (Inl err, calls) \<Rightarrow> (Inl err, calls)
              | (Inr response, calls) \<Rightarrow> (Inr (text_result response), calls))"

text \<open>The body of the \<^verbatim>\<open>try\<close> statement: \<open>Inl\<close> is an exception raised inside it.\<close>

definition call_tool_try ::
  "env \<Rightarrow> slack_client \<Rightarrow> string \<Rightarrow> (string \<times> json) list
     \<Rightarrow> (py_exception + text_content list) \<times> outbound list" where
  "call_tool_try e client name arguments =
     (if name = ''slack_list_channels'' then
        (let limit = dict_get arguments ''limit'' (JInt 100);
             cursor = dict_get arguments ''cursor'' JNull
         in returning (get_channels e client limit cursor))
      else if name = ''get_conversation_info'' then
        (let channel_id = dict_get arguments ''channel_id'' JNull
         in if \<not> truthy channel_id
            then (Inl (ValueError ''Missing required argument: channel_id''), [])
            else (case get_conversation_info e client channel_id of
                    (Inl err, calls) \<Rightarrow> (Inl err, calls)
                  | (Inr response, calls) \<Rightarrow>
                      (if truthy response then Inr (text_result response)
                       else Inr (text_result
                              (JObj [(''error'', JStr ''Channel not found or is archived'')])),
                       calls)))
      else if name = ''slack_post_message'' then
        (let channel_id = dict_get arguments ''channel_id'' JNull;
             text = dict_get arguments ''text'' JNull
         in if \<not> truthy channel_id \<or> \<not> truthy text
            then (Inl (ValueError ''Missing required arguments: channel_id and text''), [])
            else returning (post_message e client channel_id text))
      else if name = ''slack_reply_to_thread'' then
        (let channel_id = dict_get arguments ''channel_id'' JNull;
             thread_ts = dict_get arguments ''thread_ts'' JNull;
             text = dict_get arguments ''text'' JNull
         in if \<not> truthy channel_id \<or> \<not> truthy thread_ts \<or> \<not> truthy text
            then (Inl (ValueError
                    ''Missing required arguments: channel_id, thread_ts, and text''), [])
            else returning (post_reply e client channel_id thread_ts text))
      else if name = ''slack_add_reaction'' then
        (let channel_id = dict_get arguments ''channel_id'' JNull;
             timestamp = dict_get arguments ''timestamp'' JNull;
             reaction = dict_get arguments ''reaction'' JNull
         in if \<not> truthy channel_id \<or> \<not> truthy timestamp \<or> \<not> truthy reaction
            then (Inl (ValueError
                    ''Missing required arguments: channel_id, timestamp, and reaction''), [])
            else returning (add_reaction e client channel_id timestamp reaction))
      else if name = ''slack_get_channel_history'' then
        (let channel_id = dict_get arguments ''channel_id'' JNull
         in if \<not> truthy channel_id
            then (Inl (ValueError ''Missing required argument: channel_id''), [])
            else (let limit = dict_get arguments ''limit'' (JInt 10)
                  in returning (get_channel_history e client channel_id limit)))
      else if name = ''slack_get_thread_replies'' then
        (let channel_id = dict_get arguments ''channel_id'' JNull;
             thread_ts = dict_get arguments ''thread_ts'' JNull
         in if \<not> truthy channel_id \<or> \<not> truthy thread_ts
            then (Inl (ValueError ''Missing required arguments: channel_id and thread_ts''), [])
            else returning (get_thread_replies e client channel_id thread_ts))
      else if name = ''slack_get_users'' then
        (let limit = dict_get arguments ''limit'' (JInt 100);
             cursor = dict_get arguments ''cursor'' JNull
         in returning (get_users e client limit cursor))
      else if name = ''slack_get_user_profile'' then
        (let user_id = dict_get arguments ''user_id'' JNull
         in if \<not> truthy user_id
            then (Inl (ValueError ''Missing required argument: user_id''), [])
            else returning (get_user_profile e client user_id))
      else (Inl (ValueError (''Unknown tool: '' @ name)), []))"

definition error_result :: "py_exception \<Rightarrow> text_content list" where
  "error_result error = text_result (JObj [(''error'', JStr (exception_str error))])"

text \<open>
  \<^verbatim>\<open>call_tool\<close>: \<open>Inl\<close> is an exception that leaves the handler, \<open>Inr\<close> the content it
  returns; the second component lists the outbound calls it made.
\<close>

definition call_tool ::
  "env \<Rightarrow> string \<Rightarrow> (string \<times> json) list
     \<Rightarrow> (py_exception + text_content list) \<times> outbound list" where
  "call_tool e name arguments =
     (case fetch_client e of
        (Inl err, calls) \<Rightarrow> (Inl err, calls)
      | (Inr client, calls) \<Rightarrow>
          (case call_tool_try e client name arguments of
             (Inl error, calls') \<Rightarrow> (Inr (error_result error), calls @ calls')
           | (Inr content, calls') \<Rightarrow> (Inr content, calls @ calls')))"

section \<open>Concrete environments\<close>

text \<open>
  A configured process, a broker answer carrying a token and a team, and a network that
  answers every request to the messaging platform with \<open>slack\<close> and every other request
  with \<open>broker\<close>.
\<close>

definition example_environ :: "string \<Rightarrow> string option" where
  "example_environ =
     map_of [(''NANGO_BASE_URL'', ''https://api.nango.dev''),
             (''NANGO_SECRET_KEY'', ''secret''),
             (''NANGO_CONNECTION_ID'', ''conn-1''),
             (''NANGO_INTEGRATION_ID'', ''slack'')]"

definition replied :: "nat \<Rightarrow> json \<Rightarrow> http_outcome" where
  "replied st body = Replied \<lparr>status_code = st, status_text = [], json_result = Inr body\<rparr>"

definition example_credentials :: json where
  "example_credentials =
     JObj [(''credentials'', JObj [(''access_token'', JStr ''xoxb-1'')]),
           (''connection_config'', JObj [(''team.id'', JStr ''T1'')])]"

definition example_env :: "http_outcome \<Rightarrow> http_outcome \<Rightarrow> env" where
  "example_env broker slack =
     \<lparr>environ = example_environ,
      network = (\<lambda>r. if prefix ''https://slack.com/api/'' (req_url r) then slack else broker)\<rparr>"

definition example_broker_request :: http_request where
  "example_broker_request =
     \<lparr>req_method = GET,
      req_url = ''https://api.nango.dev/connection/conn-1'',
      req_headers = [(''Authorization'', ''Bearer secret'')],
      req_params = [(''provider_config_key'', JStr ''slack''), (''refresh_token'', JStr ''true'')],
      req_json = None\<rparr>"

definition example_client :: slack_client where
  "example_client = SlackClient (JStr ''xoxb-1'') (JStr ''T1'')"

definition example_post_request :: http_request where
  "example_post_request =
     \<lparr>req_method = POST,
      req_url = ''https://slack.com/api/chat.postMessage'',
      req_headers = [(''Authorization'', ''Bearer xoxb-1''),
                     (''Content-Type'', ''application/json'')],
      req_params = [],
      req_json = Some (JObj [(''channel'', JStr ''C123''), (''text'', JStr ''hi'')])\<rparr>"

definition example_post_reply :: json where
  "example_post_reply = JObj [(''ok'', JBool True), (''ts'', JStr ''1.1'')]"

definition example_list_request :: http_request where
  "example_list_request =
     \<lparr>req_method = GET,
      req_url = ''https://slack.com/api/conversations.list?types=public_channel&exclude_archived=true&limit=200&team_id=T1'',
      req_headers = [(''Authorization'', ''Bearer xoxb-1''),
                     (''Content-Type'', ''application/json'')],
      req_params = [],
      req_json = None\<rparr>"

definition example_ok_reply :: json where
  "example_ok_reply = JObj [(''ok'', JBool True)]"

definition example_archived_reply :: json where
  "example_archived_reply =
     JObj [(''ok'', JBool True),
           (''channel'', JObj [(''id'', JStr ''C1''), (''is_archived'', JBool True)])]"

definition example_missing_reply :: json where
  "example_missing_reply = JObj [(''ok'', JBool False), (''error'', JStr ''channel_not_found'')]"

definition example_info_reply :: json where
  "example_info_reply = JObj [(''ok'', JBool True), (''channel'', JObj [(''id'', JStr ''C1'')])]"

text \<open>The request that \<^verbatim>\<open>call_tool\<close> has \<^verbatim>\<open>nango_credentials\<close> send for the configured connection.\<close>

definition broker_request :: "env \<Rightarrow> http_request" where
  "broker_request e =
     nango_request e (getenv e ''NANGO_CONNECTION_ID'') (getenv e ''NANGO_INTEGRATION_ID'')"

section \<open>Auxiliary facts\<close>

lemma example_broker_request:
  "broker_request (example_env broker slack) = example_broker_request"
  by (simp add: broker_request_def nango_request_def getenv_def example_env_def
      example_environ_def example_broker_request_def)

lemma example_network_broker:
  "network (example_env broker slack) example_broker_request = broker"
  by (simp add: example_env_def example_broker_request_def)

lemma example_fetch:
  "fetch_client (example_env (replied 200 example_credentials) slack) =
     (Inr example_client, [BrokerCall example_broker_request])"
  by (simp add: fetch_client_def nango_credentials_def nango_request_def getenv_def
      example_env_def example_environ_def replied_def example_credentials_def
      raise_for_status_def is_success_def response_json_def get_nested_def dict_get_def
      example_broker_request_def example_client_def)

lemma fetch_client_calls: "snd (fetch_client e) = [BrokerCall (broker_request e)]"
  by (simp add: fetch_client_def nango_credentials_def broker_request_def Let_def
      split: prod.splits)

lemma slack_call_calls: "snd (slack_call e r) = [SlackCall r]"
  by (simp add: slack_call_def)

lemma returning_calls: "snd (returning x) = snd x"
  by (cases x) (auto simp: returning_def split: sum.splits)

lemma call_tool_client:
  "fetch_client e = (Inr client, calls) \<Longrightarrow>
   call_tool e name arguments =
     (Inr (case fst (call_tool_try e client name arguments) of
             Inl error \<Rightarrow> error_result error | Inr content \<Rightarrow> content),
      calls @ snd (call_tool_try e client name arguments))"
  by (auto simp: call_tool_def split: prod.splits sum.splits)

lemma call_tool_failed:
  "fetch_client e = (Inl err, calls) \<Longrightarrow> call_tool e name arguments = (Inl err, calls)"
  by (simp add: call_tool_def)

lemma unknown_name_try:
  "name \<notin> set (map tool_name TOOLS) \<Longrightarrow>
   call_tool_try e client name arguments = (Inl (ValueError (''Unknown tool: '' @ name)), [])"
  by (simp add: TOOLS_def call_tool_try_def)

lemma example_getenv:
  "getenv (example_env broker slack) ''NANGO_CONNECTION_ID'' = JStr ''conn-1''"
  "getenv (example_env broker slack) ''NANGO_INTEGRATION_ID'' = JStr ''slack''"
  by (simp_all add: getenv_def example_env_def example_environ_def)

lemma example_nango_request:
  "nango_request (example_env broker slack) (JStr ''conn-1'') (JStr ''slack'') =
     example_broker_request"
  using example_broker_request [of broker slack]
  by (simp add: broker_request_def example_getenv)

lemma required_of_tools:
  "map (\<lambda>t. (tool_name t, required_arguments t)) TOOLS =
     [(''slack_list_channels'', []),
      (''slack_post_message'', [''channel_id'', ''text'']),
      (''slack_reply_to_thread'', [''channel_id'', ''thread_ts'', ''text'']),
      (''slack_add_reaction'', [''channel_id'', ''timestamp'', ''reaction'']),
      (''slack_get_channel_history'', [''channel_id'']),
      (''slack_get_thread_replies'', [''channel_id'', ''thread_ts'']),
      (''slack_get_users'', []),
      (''slack_get_user_profile'', [''user_id'']),
      (''get_conversation_info'', [''channel_id''])]"
  by (simp add: TOOLS_def required_arguments_def dict_get_def)

lemma missing_argument_try:
  assumes "t \<in> set TOOLS" and "a \<in> set (required_arguments t)"
    and "\<not> truthy (dict_get arguments a JNull)"
  shows "\<exists>msg. call_tool_try e client (tool_name t) arguments = (Inl (ValueError msg), []) \<and>
           (tool_name t, msg) \<in> set
             [(''slack_post_message'', ''Missing required arguments: channel_id and text''),
              (''slack_reply_to_thread'',
               ''Missing required arguments: channel_id, thread_ts, and text''),
              (''slack_add_reaction'',
               ''Missing required arguments: channel_id, timestamp, and reaction''),
              (''slack_get_channel_history'', ''Missing required argument: channel_id''),
              (''slack_get_thread_replies'',
               ''Missing required arguments: channel_id and thread_ts''),
              (''slack_get_user_profile'', ''Missing required argument: user_id''),
              (''get_conversation_info'', ''Missing required argument: channel_id'')] \<and>
           prefix ''Missing required argument'' msg \<and>
           (\<forall>b \<in> set (required_arguments t). sublist b msg)"
proof -
  have "(tool_name t, required_arguments t) \<in> set (map (\<lambda>t. (tool_name t, required_arguments t)) TOOLS)"
    using assms(1) by (simp add: image_iff) blast
  then consider
      "tool_name t = ''slack_list_channels''" "required_arguments t = []"
    | "tool_name t = ''slack_post_message''" "required_arguments t = [''channel_id'', ''text'']"
    | "tool_name t = ''slack_reply_to_thread''"
      "required_arguments t = [''channel_id'', ''thread_ts'', ''text'']"
    | "tool_name t = ''slack_add_reaction''"
      "required_arguments t = [''channel_id'', ''timestamp'', ''reaction'']"
    | "tool_name t = ''slack_get_channel_history''" "required_arguments t = [''channel_id'']"
    | "tool_name t = ''slack_get_thread_replies''"
      "required_arguments t = [''channel_id'', ''thread_ts'']"
    | "tool_name t = ''slack_get_users''" "required_arguments t = []"
    | "tool_name t = ''slack_get_user_profile''" "required_arguments t = [''user_id'']"
    | "tool_name t = ''get_conversation_info''" "required_arguments t = [''channel_id'']"
    unfolding required_of_tools by auto
  then show ?thesis
  proof cases
    case 1
    with assms(2) show ?thesis by simp
  next
    case 2
    with assms(2,3) show ?thesis
      by (auto simp: call_tool_try_def sublist_code)
  next
    case 3
    with assms(2,3) show ?thesis
      by (auto simp: call_tool_try_def sublist_code)
  next
    case 4
    with assms(2,3) show ?thesis
      by (auto simp: call_tool_try_def sublist_code)
  next
    case 5
    with assms(2,3) show ?thesis
      by (auto simp: call_tool_try_def sublist_code)
  next
    case 6
    with assms(2,3) show ?thesis
      by (auto simp: call_tool_try_def sublist_code)
  next
    case 7
    with assms(2) show ?thesis by simp
  next
    case 8
    with assms(2,3) show ?thesis
      by (auto simp: call_tool_try_def sublist_code)
  next
    case 9
    with assms(2,3) show ?thesis
      by (auto simp: call_tool_try_def sublist_code)
  qed
qed

lemma get_conversation_info_calls:
  "snd (get_conversation_info e c channel_id) =
     [SlackCall (slack_get c ''https://slack.com/api/conversations.info''
                   [(''channel'', channel_id)])]"
  by (simp add: get_conversation_info_def slack_call_def Let_def split: prod.splits)

lemma returning_slack_call:
  "returning (slack_call e r) =
     (case fst (slack_call e r) of Inl err \<Rightarrow> Inl err | Inr j \<Rightarrow> Inr (text_result j),
      [SlackCall r])"
  by (cases "fst (slack_call e r)") (auto simp: returning_def slack_call_def split: prod.splits)

text \<open>The branches of the try body, one per tool name.\<close>

lemma try_list_channels:
  "call_tool_try e c ''slack_list_channels'' a =
     returning (get_channels e c (dict_get a ''limit'' (JInt 100)) (dict_get a ''cursor'' JNull))"
  by (simp add: call_tool_try_def)

lemma try_get_users:
  "call_tool_try e c ''slack_get_users'' a =
     returning (get_users e c (dict_get a ''limit'' (JInt 100)) (dict_get a ''cursor'' JNull))"
  by (simp add: call_tool_try_def)

lemma try_conversation_info:
  "call_tool_try e c ''get_conversation_info'' a =
     (if \<not> truthy (dict_get a ''channel_id'' JNull)
      then (Inl (ValueError ''Missing required argument: channel_id''), [])
      else (case get_conversation_info e c (dict_get a ''channel_id'' JNull) of
              (Inl err, calls) \<Rightarrow> (Inl err, calls)
            | (Inr response, calls) \<Rightarrow>
                (if truthy response then Inr (text_result response)
                 else Inr (text_result
                        (JObj [(''error'', JStr ''Channel not found or is archived'')])),
                 calls)))"
  by (simp add: call_tool_try_def)

lemma try_post_message:
  "call_tool_try e c ''slack_post_message'' a =
     (if \<not> truthy (dict_get a ''channel_id'' JNull) \<or> \<not> truthy (dict_get a ''text'' JNull)
      then (Inl (ValueError ''Missing required arguments: channel_id and text''), [])
      else returning (post_message e c (dict_get a ''channel_id'' JNull)
                                       (dict_get a ''text'' JNull)))"
  by (simp add: call_tool_try_def)

lemma try_reply_to_thread:
  "call_tool_try e c ''slack_reply_to_thread'' a =
     (if \<not> truthy (dict_get a ''channel_id'' JNull) \<or> \<not> truthy (dict_get a ''thread_ts'' JNull)
         \<or> \<not> truthy (dict_get a ''text'' JNull)
      then (Inl (ValueError ''Missing required arguments: channel_id, thread_ts, and text''), [])
      else returning (post_reply e c (dict_get a ''channel_id'' JNull)
                        (dict_get a ''thread_ts'' JNull) (dict_get a ''text'' JNull)))"
  by (simp add: call_tool_try_def)

lemma try_add_reaction:
  "call_tool_try e c ''slack_add_reaction'' a =
     (if \<not> truthy (dict_get a ''channel_id'' JNull) \<or> \<not> truthy (dict_get a ''timestamp'' JNull)
         \<or> \<not> truthy (dict_get a ''reaction'' JNull)
      then (Inl (ValueError
              ''Missing required arguments: channel_id, timestamp, and reaction''), [])
      else returning (add_reaction e c (dict_get a ''channel_id'' JNull)
                        (dict_get a ''timestamp'' JNull) (dict_get a ''reaction'' JNull)))"
  by (simp add: call_tool_try_def)

lemma try_channel_history:
  "call_tool_try e c ''slack_get_channel_history'' a =
     (if \<not> truthy (dict_get a ''channel_id'' JNull)
      then (Inl (ValueError ''Missing required argument: channel_id''), [])
      else returning (get_channel_history e c (dict_get a ''channel_id'' JNull)
                        (dict_get a ''limit'' (JInt 10))))"
  by (simp add: call_tool_try_def)

lemma try_thread_replies:
  "call_tool_try e c ''slack_get_thread_replies'' a =
     (if \<not> truthy (dict_get a ''channel_id'' JNull) \<or> \<not> truthy (dict_get a ''thread_ts'' JNull)
      then (Inl (ValueError ''Missing required arguments: channel_id and thread_ts''), [])
      else returning (get_thread_replies e c (dict_get a ''channel_id'' JNull)
                        (dict_get a ''thread_ts'' JNull)))"
  by (simp add: call_tool_try_def)

lemma try_user_profile:
  "call_tool_try e c ''slack_get_user_profile'' a =
     (if \<not> truthy (dict_get a ''user_id'' JNull)
      then (Inl (ValueError ''Missing required argument: user_id''), [])
      else returning (get_user_profile e c (dict_get a ''user_id'' JNull)))"
  by (simp add: call_tool_try_def)

lemma returning_raise: "returning (Inl err, calls) = (Inl err, calls)"
  by (simp add: returning_def)

lemma tool_names:
  "map tool_name TOOLS =
     [''slack_list_channels'', ''slack_post_message'', ''slack_reply_to_thread'',
      ''slack_add_reaction'', ''slack_get_channel_history'', ''slack_get_thread_replies'',
      ''slack_get_users'', ''slack_get_user_profile'', ''get_conversation_info'']"
  by (simp add: TOOLS_def)

lemma tool_name_cases:
  assumes "name \<in> set (map tool_name TOOLS)"
  obtains "name = ''slack_list_channels''" | "name = ''slack_post_message''"
    | "name = ''slack_reply_to_thread''" | "name = ''slack_add_reaction''"
    | "name = ''slack_get_channel_history''" | "name = ''slack_get_thread_replies''"
    | "name = ''slack_get_users''" | "name = ''slack_get_user_profile''"
    | "name = ''get_conversation_info''"
proof -
  have "name \<in> set [''slack_list_channels'', ''slack_post_message'', ''slack_reply_to_thread'',
      ''slack_add_reaction'', ''slack_get_channel_history'', ''slack_get_thread_replies'',
      ''slack_get_users'', ''slack_get_user_profile'', ''get_conversation_info'']"
    using assms by (simp only: tool_names)
  then have "name = ''slack_list_channels'' \<or> name = ''slack_post_message'' \<or>
      name = ''slack_reply_to_thread'' \<or> name = ''slack_add_reaction'' \<or>
      name = ''slack_get_channel_history'' \<or> name = ''slack_get_thread_replies'' \<or>
      name = ''slack_get_users'' \<or> name = ''slack_get_user_profile'' \<or>
      name = ''get_conversation_info''"
    by (simp only: set_simps insert_iff empty_iff simp_thms)
  then show thesis
    by (elim disjE) (erule that)+
qed

lemma get_channels_shape:
  "(\<exists>err. get_channels e c limit cursor = (Inl err, [])) \<or>
   (\<exists>r. get_channels e c limit cursor = slack_call e r \<and> req_headers r = bot_headers c)"
  by (cases "min_200 limit")
     (auto simp: get_channels_def slack_get_def Let_def)

lemma get_users_shape:
  "(\<exists>err. get_users e c limit cursor = (Inl err, [])) \<or>
   (\<exists>r. get_users e c limit cursor = slack_call e r \<and> req_headers r = bot_headers c)"
  by (cases "min_200 limit")
     (auto simp: get_users_def slack_get_def Let_def)

lemma returning_shape:
  assumes "(\<exists>err. m = (Inl err, [])) \<or>
           (\<exists>r. m = slack_call e r \<and> req_headers r = bot_headers c)"
  shows "(\<exists>err. returning m = (Inl err, [])) \<or>
         (\<exists>r. req_headers r = bot_headers c \<and> snd (returning m) = [SlackCall r] \<and>
              returning m = returning (slack_call e r))"
  using assms by (auto simp: returning_raise returning_slack_call)

text \<open>
  The try body either raises before any call, or makes exactly one call, with the client's
  headers; for every tool but \<^verbatim>\<open>get_conversation_info\<close> its outcome is then that call's.
\<close>

lemma call_tool_try_shape:
  "(\<exists>err. call_tool_try e c name a = (Inl err, [])) \<or>
   (\<exists>r. req_headers r = bot_headers c \<and> snd (call_tool_try e c name a) = [SlackCall r] \<and>
        (name \<noteq> ''get_conversation_info'' \<longrightarrow>
           call_tool_try e c name a = returning (slack_call e r)))"
proof (cases "name \<in> set (map tool_name TOOLS)")
  case False
  then show ?thesis by (simp add: unknown_name_try)
next
  case True
  then show ?thesis
  proof (cases rule: tool_name_cases)
    case 1
    show ?thesis
      unfolding 1 try_list_channels
      using returning_shape [OF get_channels_shape] by fast
  next
    case 2
    show ?thesis
      unfolding 2
      by (simp add: try_post_message post_message_def returning_slack_call slack_post_def)
  next
    case 3
    show ?thesis
      unfolding 3
      by (simp add: try_reply_to_thread post_reply_def returning_slack_call slack_post_def)
  next
    case 4
    show ?thesis
      unfolding 4
      by (simp add: try_add_reaction add_reaction_def returning_slack_call slack_post_def)
  next
    case 5
    show ?thesis
      unfolding 5
      by (simp add: try_channel_history get_channel_history_def returning_slack_call
          slack_get_def)
  next
    case 6
    show ?thesis
      unfolding 6
      by (simp add: try_thread_replies get_thread_replies_def returning_slack_call slack_get_def)
  next
    case 7
    show ?thesis
      unfolding 7 try_get_users
      using returning_shape [OF get_users_shape] by fast
  next
    case 8
    show ?thesis
      unfolding 8
      by (simp add: try_user_profile get_user_profile_def returning_slack_call slack_get_def)
  next
    case 9
    show ?thesis
    proof (cases "truthy (dict_get a ''channel_id'' JNull)")
      case False
      then show ?thesis unfolding 9 by (simp add: try_conversation_info)
    next
      case True
      have "snd (call_tool_try e c ''get_conversation_info'' a) =
              [SlackCall (slack_get c ''https://slack.com/api/conversations.info''
                            [(''channel'', dict_get a ''channel_id'' JNull)])]"
        using get_conversation_info_calls [of e c "dict_get a ''channel_id'' JNull"] True
        by (cases "get_conversation_info e c (dict_get a ''channel_id'' JNull)")
           (simp add: try_conversation_info split: sum.splits)
      then show ?thesis unfolding 9 by (simp add: slack_get_def)
    qed
  qed
qed

lemma fetch_client_origin:
  assumes "fetch_client e = (Inr client, calls)"
  shows "\<exists>resp creds tok tid.
           network e (broker_request e) = Replied resp \<and> is_success (status_code resp) \<and>
           json_result resp = Inr creds \<and>
           get_nested creds ''credentials'' ''access_token'' = Inr tok \<and>
           get_nested creds ''connection_config'' ''team.id'' = Inr tid \<and>
           client = SlackClient tok tid"
proof (cases "network e (broker_request e)")
  case (Failed m)
  with assms show ?thesis
    by (simp add: fetch_client_def nango_credentials_def broker_request_def)
next
  case (Replied resp)
  show ?thesis
  proof (cases "is_success (status_code resp)")
    case False
    with assms Replied show ?thesis
      by (simp add: fetch_client_def nango_credentials_def broker_request_def
          raise_for_status_def)
  next
    case True
    show ?thesis
    proof (cases "json_result resp")
      case (Inl m)
      with assms Replied True show ?thesis
        by (simp add: fetch_client_def nango_credentials_def broker_request_def
            raise_for_status_def response_json_def)
    next
      case (Inr creds)
      with assms Replied True show ?thesis
        by (simp add: fetch_client_def nango_credentials_def broker_request_def
            raise_for_status_def response_json_def split: sum.splits)
    qed
  qed
qed

lemma slack_call_replied:
  "network e r = Replied resp \<Longrightarrow> json_result resp = Inr data \<Longrightarrow>
   slack_call e r = (Inr data, [SlackCall r])"
  by (simp add: slack_call_def response_json_def)

lemma conversation_info_try_replied:
  assumes "snd (call_tool_try e c ''get_conversation_info'' a) = [SlackCall r]"
    and "network e r = Replied resp" and "json_result resp = Inr data"
  shows "fst (call_tool_try e c ''get_conversation_info'' a) =
           (case channel_or_none data of
              Inl err \<Rightarrow> Inl err
            | Inr channel \<Rightarrow>
                Inr (if truthy channel then text_result channel
                     else text_result
                            (JObj [(''error'', JStr ''Channel not found or is archived'')])))"
proof -
  let ?id = "dict_get a ''channel_id'' JNull"
  let ?q = "slack_get c ''https://slack.com/api/conversations.info'' [(''channel'', ?id)]"
  have t: "truthy ?id"
    using assms(1) by (cases "truthy ?id") (simp_all add: try_conversation_info)
  have "snd (call_tool_try e c ''get_conversation_info'' a) = [SlackCall ?q]"
    using get_conversation_info_calls [of e c ?id] t
    by (cases "get_conversation_info e c ?id")
       (simp add: try_conversation_info split: sum.splits)
  with assms(1) have r: "r = ?q" by simp
  have "get_conversation_info e c ?id = (channel_or_none data, [SlackCall ?q])"
    using slack_call_replied [OF assms(2,3)] r
    by (simp add: get_conversation_info_def)
  with t show ?thesis
    by (simp add: try_conversation_info split: sum.splits)
qed

lemma example_network_slack:
  "prefix ''https://slack.com/api/'' (req_url r) \<Longrightarrow>
   network (example_env broker slack) r = slack"
  by (simp add: example_env_def)

lemma example_slack_call:
  "prefix ''https://slack.com/api/'' (req_url r) \<Longrightarrow>
   slack_call (example_env broker (replied st body)) r = (Inr body, [SlackCall r])"
  by (simp add: slack_call_def example_network_slack replied_def response_json_def)

lemma example_post_message:
  \<open>call_tool (example_env (replied 200 example_credentials) (replied 200 example_post_reply))
       ''slack_post_message'' [(''channel_id'', JStr ''C123''), (''text'', JStr ''hi'')] =
     (Inr [TextContent ''text'' ''{"ok": true, "ts": "1.1"}''],
      [BrokerCall example_broker_request, SlackCall example_post_request])\<close>
proof -
  let ?e = "example_env (replied 200 example_credentials) (replied 200 example_post_reply)"
  have req: "slack_post example_client ''https://slack.com/api/chat.postMessage''
               [(''channel'', JStr ''C123''), (''text'', JStr ''hi'')] = example_post_request"
    by (simp add: slack_post_def example_client_def SlackClient_def example_post_request_def)
  have sc: "slack_call ?e example_post_request =
              (Inr example_post_reply, [SlackCall example_post_request])"
    by (rule example_slack_call) (simp add: example_post_request_def)
  have "call_tool_try ?e example_client ''slack_post_message''
          [(''channel_id'', JStr ''C123''), (''text'', JStr ''hi'')] =
        (Inr (text_result example_post_reply), [SlackCall example_post_request])"
    by (simp add: try_post_message dict_get_def post_message_def req sc returning_def)
  then show ?thesis
    by (simp add: call_tool_client [OF example_fetch] text_result_def example_post_reply_def
        json_quote_def json_escape_char_def)
qed

lemma decimal_digit_safe: "d < 10 \<Longrightarrow> url_safe (''0123456789'' ! d)"
proof -
  assume "d < 10"
  then have "d \<in> {0, 1, 2, 3, 4, 5, 6, 7, 8, 9}" by auto
  then show ?thesis
    by (elim insertE emptyE) (simp_all add: url_safe_def)
qed

lemma digits_safe: "c \<in> set (digits n) \<Longrightarrow> url_safe c"
proof (induction n arbitrary: c rule: digits.induct)
  case (1 n)
  show ?case
  proof (cases "n < 10")
    case True
    with "1.prems" show ?thesis
      by (subst (asm) digits.simps) (simp add: decimal_digit_safe)
  next
    case False
    have "n mod 10 < 10" by simp
    with False "1.prems" "1.IH" show ?thesis
      by (subst (asm) digits.simps) (auto simp: decimal_digit_safe)
  qed
qed

lemma quote_plus_safe: "(\<And>c. c \<in> set s \<Longrightarrow> url_safe c) \<Longrightarrow> quote_plus s = s"
  by (induction s) (simp_all add: quote_plus_def quote_plus_char_def)

lemma quote_plus_str_int: "quote_plus (str_int n) = str_int n"
proof (rule quote_plus_safe)
  fix c assume "c \<in> set (str_int n)"
  then have "c = CHR ''-'' \<or> (\<exists>k. c \<in> set (digits k))"
    by (auto simp: str_int_def split: if_splits)
  then show "url_safe c"
    using digits_safe by (auto simp: url_safe_def)
qed

lemma quote_plus_keys:
  "quote_plus ''types'' = ''types''" "quote_plus ''public_channel'' = ''public_channel''"
  "quote_plus ''exclude_archived'' = ''exclude_archived''" "quote_plus ''true'' = ''true''"
  "quote_plus ''limit'' = ''limit''" "quote_plus ''team_id'' = ''team_id''"
  "quote_plus ''cursor'' = ''cursor''"
  by (simp_all add: quote_plus_def quote_plus_char_def url_safe_def)

lemma get_channels_request:
  "min_200 limit = Inr m \<Longrightarrow>
   get_channels e c limit cursor =
     slack_call e
       \<lparr>req_method = GET,
        req_url = ''https://slack.com/api/conversations.list?types=public_channel&exclude_archived=true&limit=''
                  @ quote_plus (py_str m) @ ''&team_id='' @ quote_plus (py_str (team_id c))
                  @ (if truthy cursor then ''&cursor='' @ quote_plus (py_str cursor) else []),
        req_headers = bot_headers c, req_params = [], req_json = None\<rparr>"
  by (cases "truthy cursor")
     (simp_all add: get_channels_def slack_get_def Let_def urlencode_def quote_plus_keys)

lemma get_users_request:
  "min_200 limit = Inr m \<Longrightarrow>
   get_users e c limit cursor =
     slack_call e
       \<lparr>req_method = GET,
        req_url = ''https://slack.com/api/users.list?limit=''
                  @ quote_plus (py_str m) @ ''&team_id='' @ quote_plus (py_str (team_id c))
                  @ (if truthy cursor then ''&cursor='' @ quote_plus (py_str cursor) else []),
        req_headers = bot_headers c, req_params = [], req_json = None\<rparr>"
  by (cases "truthy cursor")
     (simp_all add: get_users_def slack_get_def Let_def urlencode_def quote_plus_keys)

lemma get_channels_raise:
  "min_200 limit = Inl err \<Longrightarrow> get_channels e c limit cursor = (Inl err, [])"
  by (simp add: get_channels_def)

lemma list_channels_calls:
  "snd (call_tool_try e c ''slack_list_channels'' a) =
     snd (get_channels e c (dict_get a ''limit'' (JInt 100)) (dict_get a ''cursor'' JNull))"
  by (simp add: try_list_channels returning_calls)

lemma get_users_tool_calls:
  "snd (call_tool_try e c ''slack_get_users'' a) =
     snd (get_users e c (dict_get a ''limit'' (JInt 100)) (dict_get a ''cursor'' JNull))"
  by (simp add: try_get_users returning_calls)

lemma get_channels_fixed:
  assumes "SlackCall r \<in> set (snd (get_channels e c limit cursor))"
  shows "req_method r = GET \<and>
         prefix ''https://slack.com/api/conversations.list?types=public_channel&exclude_archived=true&''
                (req_url r)"
proof (cases "min_200 limit")
  case (Inl err)
  with assms show ?thesis by (simp add: get_channels_raise)
next
  case (Inr m)
  with assms show ?thesis
    by (simp add: get_channels_request slack_call_calls)
qed

lemma example_list_channels:
  "snd (call_tool (example_env (replied 200 example_credentials) (replied 200 example_ok_reply))
          ''slack_list_channels'' [(''limit'', JInt 500)]) =
     [BrokerCall example_broker_request, SlackCall example_list_request]"
proof -
  have m: "min_200 (JInt 500) = Inr (JInt 200)" by simp
  have "str_int 200 = ''200''" by (simp add: str_int_def digits.simps)
  then have u: "quote_plus (str_int 200) = ''200''"
    by (subst quote_plus_str_int)
  have t: "quote_plus (py_str (team_id example_client)) = ''T1''"
    by (simp add: example_client_def SlackClient_def quote_plus_def quote_plus_char_def
        url_safe_def)
  show ?thesis
    by (simp add: call_tool_client [OF example_fetch] list_channels_calls dict_get_def
        get_channels_request [OF m] slack_call_calls u t)
       (simp add: example_list_request_def example_client_def SlackClient_def)
qed

lemma channel_or_none_dict:
  "channel_or_none (JObj d) =
     (if \<not> truthy (dict_get d ''ok'' JNull) \<or> \<not> truthy (dict_get d ''channel'' JNull)
      then Inr JNull
      else (case py_get (dict_get d ''channel'' JNull) ''is_archived'' JNull of
              Inl err \<Rightarrow> Inl err
            | Inr archived \<Rightarrow>
                if \<not> truthy archived then Inr (dict_get d ''channel'' JNull) else Inr JNull))"
  by (simp add: channel_or_none_def)

lemma sentinel_text:
  \<open>text_result (JObj [(''error'', JStr ''Channel not found or is archived'')]) =
     [TextContent ''text'' ''{"error": "Channel not found or is archived"}'']\<close>
  by (simp add: text_result_def json_quote_def json_escape_char_def)

lemma conversation_info_replied:
  assumes "network e (slack_get c ''https://slack.com/api/conversations.info''
                        [(''channel'', x)]) = Replied resp"
    and "json_result resp = Inr data"
  shows "get_conversation_info e c x =
           (channel_or_none data,
            [SlackCall (slack_get c ''https://slack.com/api/conversations.info''
                          [(''channel'', x)])])"
  using slack_call_replied [OF assms] by (simp add: get_conversation_info_def)

lemma example_info_network:
  "network (example_env broker (replied 200 body))
     (slack_get example_client ''https://slack.com/api/conversations.info''
        [(''channel'', dict_get [(''channel_id'', JStr ''C1'')] ''channel_id'' JNull)]) =
   Replied \<lparr>status_code = 200, status_text = [], json_result = Inr body\<rparr>"
  by (simp add: example_network_slack slack_get_def replied_def)

lemma example_fetch_failed:
  "fetch_client (example_env (Failed m) slack) =
     (Inl (TransportError m), [BrokerCall example_broker_request])"
  using example_broker_request [of "Failed m" slack]
  by (simp add: fetch_client_def nango_credentials_def broker_request_def example_getenv
      example_nango_request example_network_broker)

lemma get_users_raise:
  "min_200 limit = Inl err \<Longrightarrow> get_users e c limit cursor = (Inl err, [])"
  by (simp add: get_users_def)

lemma list_channels_url:
  assumes "snd (call_tool_try e c ''slack_list_channels'' a) = [SlackCall r]"
  shows "\<exists>m. min_200 (dict_get a ''limit'' (JInt 100)) = Inr m \<and>
             req_url r =
               ''https://slack.com/api/conversations.list?types=public_channel&exclude_archived=true&limit=''
               @ quote_plus (py_str m) @ ''&team_id='' @ quote_plus (py_str (team_id c))
               @ (if truthy (dict_get a ''cursor'' JNull)
                  then ''&cursor='' @ quote_plus (py_str (dict_get a ''cursor'' JNull)) else [])"
proof (cases "min_200 (dict_get a ''limit'' (JInt 100))")
  case (Inl err)
  with assms show ?thesis
    by (simp add: list_channels_calls get_channels_raise)
next
  case (Inr m)
  with assms show ?thesis
    by (auto simp: list_channels_calls get_channels_request slack_call_calls)
qed

lemma get_users_url:
  assumes "snd (call_tool_try e c ''slack_get_users'' a) = [SlackCall r]"
  shows "\<exists>m. min_200 (dict_get a ''limit'' (JInt 100)) = Inr m \<and>
             req_url r =
               ''https://slack.com/api/users.list?limit=''
               @ quote_plus (py_str m) @ ''&team_id='' @ quote_plus (py_str (team_id c))
               @ (if truthy (dict_get a ''cursor'' JNull)
                  then ''&cursor='' @ quote_plus (py_str (dict_get a ''cursor'' JNull)) else [])"
proof (cases "min_200 (dict_get a ''limit'' (JInt 100))")
  case (Inl err)
  with assms show ?thesis
    by (simp add: get_users_tool_calls get_users_raise)
next
  case (Inr m)
  with assms show ?thesis
    by (auto simp: get_users_tool_calls get_users_request slack_call_calls)
qed

section \<open>The dispatcher's error boundary\<close>

text \<open>
  Claim C1. \<^verbatim>\<open>callTool\<close> is claimed never to raise past its own boundary, a failed
  credential fetch included. In the source the fetch stands before the \<^verbatim>\<open>try\<close>
  statement: whenever \<^verbatim>\<open>nango_credentials\<close> raises, for every tool name and every argument
  mapping, the same exception leaves \<^verbatim>\<open>call_tool\<close> and no content is returned. The only
  outbound call made is the one to the broker, so the requested operation is not attempted.
\<close>

theorem credential_failure_escapes:
  assumes "fst (nango_credentials e (getenv e ''NANGO_CONNECTION_ID'')
                                    (getenv e ''NANGO_INTEGRATION_ID'')) = Inl err"
  shows "call_tool e name arguments = (Inl err, [BrokerCall (broker_request e)])"
proof -
  have "fst (fetch_client e) = Inl err"
    using assms
    by (cases "nango_credentials e (getenv e ''NANGO_CONNECTION_ID'')
                                   (getenv e ''NANGO_INTEGRATION_ID'')")
       (simp add: fetch_client_def)
  then have "fetch_client e = (Inl err, snd (fetch_client e))"
    by (metis prod.collapse)
  then show ?thesis
    using call_tool_failed fetch_client_calls by metis
qed

theorem credential_failure_escapes_witness:
  "call_tool (example_env (Failed ''connection refused'')
                          (replied 200 (JObj [(''ok'', JBool True)])))
       ''slack_list_channels'' [] =
     (Inl (TransportError ''connection refused''), [BrokerCall example_broker_request])"
proof -
  let ?e = "example_env (Failed ''connection refused'')
                        (replied 200 (JObj [(''ok'', JBool True)]))"
  have "nango_credentials ?e (getenv ?e ''NANGO_CONNECTION_ID'')
                             (getenv ?e ''NANGO_INTEGRATION_ID'') =
          (Inl (TransportError ''connection refused''), [BrokerCall example_broker_request])"
    using example_broker_request [of "Failed ''connection refused''"]
    by (simp add: nango_credentials_def broker_request_def example_network_broker)
  then have "fst (nango_credentials ?e (getenv ?e ''NANGO_CONNECTION_ID'')
                                       (getenv ?e ''NANGO_INTEGRATION_ID'')) =
          Inl (TransportError ''connection refused'')"
    by simp
  from credential_failure_escapes [OF this] show ?thesis
    by (simp add: example_broker_request)
qed

section \<open>The tool registry\<close>

text \<open>
  Claim C5. \<^verbatim>\<open>list_tools\<close> returns the constant \<^verbatim>\<open>TOOLS\<close> and makes no outbound call: a
  sequence of exactly nine descriptors with pairwise different names, which are, in this
  order, \<^verbatim>\<open>slack_list_channels\<close>, \<^verbatim>\<open>slack_post_message\<close>, \<^verbatim>\<open>slack_reply_to_thread\<close>,
  \<^verbatim>\<open>slack_add_reaction\<close>, \<^verbatim>\<open>slack_get_channel_history\<close>, \<^verbatim>\<open>slack_get_thread_replies\<close>,
  \<^verbatim>\<open>slack_get_users\<close>, \<^verbatim>\<open>slack_get_user_profile\<close> and \<^verbatim>\<open>get_conversation_info\<close>. It takes
  no input and reads no state, so every invocation gives this result. (The handler also
  prints one fixed line on the diagnostic stream, which stays outside the model.)
\<close>

theorem list_tools_names:
  "fst list_tools = TOOLS \<and> snd list_tools = [] \<and> length (fst list_tools) = 9 \<and>
   map tool_name (fst list_tools) =
     [''slack_list_channels'', ''slack_post_message'', ''slack_reply_to_thread'',
      ''slack_add_reaction'', ''slack_get_channel_history'', ''slack_get_thread_replies'',
      ''slack_get_users'', ''slack_get_user_profile'', ''get_conversation_info''] \<and>
   distinct (map tool_name (fst list_tools))"
  by (simp add: list_tools_def TOOLS_def)

section \<open>The credential fetch and the broker\<close>

text \<open>
  Claim C2, as stated: the credential fetch fails when the broker is unreachable, when it
  answers with a status outside 2xx, or when its answer lacks an access token or a tenant
  identifier, and a normal return carries both. The source has no check of the answer's
  contents. With a broker that answers 200 and the empty object, \<^verbatim>\<open>nango_credentials\<close>
  returns that object; \<^verbatim>\<open>call_tool\<close> reads both the token and the team as \<^verbatim>\<open>None\<close> and
  constructs the client with the header \<^verbatim>\<open>Bearer None\<close>.
\<close>

theorem credentials_unchecked_counterexample:
  "nango_credentials (example_env (replied 200 (JObj [])) (Failed []))
       (JStr ''conn-1'') (JStr ''slack'') =
     (Inr (JObj []), [BrokerCall example_broker_request]) \<and>
   get_nested (JObj []) ''credentials'' ''access_token'' = Inr JNull \<and>
   get_nested (JObj []) ''connection_config'' ''team.id'' = Inr JNull \<and>
   fetch_client (example_env (replied 200 (JObj [])) (Failed [])) =
     (Inr (SlackClient JNull JNull), [BrokerCall example_broker_request]) \<and>
   bot_headers (SlackClient JNull JNull) =
     [(''Authorization'', ''Bearer None''), (''Content-Type'', ''application/json'')]"
  by (simp add: nango_credentials_def example_nango_request example_network_broker
      replied_def raise_for_status_def is_success_def response_json_def get_nested_def
      dict_get_def fetch_client_def example_getenv SlackClient_def)

text \<open>
  Claim C2, amended: \<^verbatim>\<open>nango_credentials\<close> raises exactly when the request itself raises
  (the broker is unreachable), when the status is outside 200..299, or when the body is
  not JSON. It returns normally exactly when the status is 2xx and the body decodes, and
  then it returns the decoded body as it is, whatever it contains. It makes one call, to
  the broker.
\<close>

theorem nango_credentials_outcome:
  "((\<exists>err. fst (nango_credentials e c i) = Inl err) \<longleftrightarrow>
      (\<exists>m. network e (nango_request e c i) = Failed m) \<or>
      (\<exists>r. network e (nango_request e c i) = Replied r \<and>
           (\<not> is_success (status_code r) \<or> (\<exists>m. json_result r = Inl m)))) \<and>
   (fst (nango_credentials e c i) = Inr body \<longleftrightarrow>
      (\<exists>r. network e (nango_request e c i) = Replied r \<and>
           is_success (status_code r) \<and> json_result r = Inr body)) \<and>
   snd (nango_credentials e c i) = [BrokerCall (nango_request e c i)]"
  by (cases "network e (nango_request e c i)")
     (auto simp: nango_credentials_def raise_for_status_def response_json_def Let_def
           split: sum.splits)

theorem nango_credentials_outcome_witness:
  "fst (nango_credentials (example_env (replied 200 example_credentials) (Failed []))
          (JStr ''conn-1'') (JStr ''slack'')) = Inr example_credentials \<and>
   (\<exists>err. fst (nango_credentials (example_env (replied 503 example_credentials) (Failed []))
          (JStr ''conn-1'') (JStr ''slack'')) = Inl err) \<and>
   (\<exists>err. fst (nango_credentials (example_env (Failed ''connection refused'') (Failed []))
          (JStr ''conn-1'') (JStr ''slack'')) = Inl err)"
  using nango_credentials_outcome
          [of "example_env (replied 200 example_credentials) (Failed [])"
              "JStr ''conn-1''" "JStr ''slack''" example_credentials]
        nango_credentials_outcome
          [of "example_env (replied 503 example_credentials) (Failed [])"
              "JStr ''conn-1''" "JStr ''slack''" example_credentials]
        nango_credentials_outcome
          [of "example_env (Failed ''connection refused'') (Failed [])"
              "JStr ''conn-1''" "JStr ''slack''" example_credentials]
  by (simp add: example_nango_request example_network_broker replied_def is_success_def)

section \<open>Unknown tool names\<close>

text \<open>
  Claim C3, as stated: for a name outside the registry \<^verbatim>\<open>callTool\<close> returns the envelope
  \<^verbatim>\<open>{"error": "Unknown tool: <name>"}\<close> and performs zero outbound calls. The credentials
  are fetched before the name is looked at, so one outbound call, to the broker, is made
  for \<^verbatim>\<open>slack_delete_message\<close> as for every other name.
\<close>

theorem unknown_tool_counterexample:
  "snd (call_tool (example_env (replied 200 example_credentials) (Failed []))
          ''slack_delete_message'' []) = [BrokerCall example_broker_request] \<and>
   snd (call_tool (example_env (replied 200 example_credentials) (Failed []))
          ''slack_delete_message'' []) \<noteq> []"
  by (simp add: call_tool_client [OF example_fetch] unknown_name_try TOOLS_def)

text \<open>
  Claim C3, amended: for every name that is not one of the nine registered names and every
  argument mapping, the only outbound call is the credential fetch (no call reaches the
  messaging platform), and whenever the client could be constructed from the fetched
  credentials the content returned is the single text item whose text is the JSON object
  with the one member \<^verbatim>\<open>error\<close>, valued \<^verbatim>\<open>Unknown tool: \<close> followed by the name (written as a
  JSON string, so with the name's special characters escaped).
\<close>

theorem unknown_tool:
  assumes "name \<notin> set (map tool_name TOOLS)"
  shows \<open>snd (call_tool e name arguments) = [BrokerCall (broker_request e)] \<and>
         (\<forall>client calls. fetch_client e = (Inr client, calls) \<longrightarrow>
            fst (call_tool e name arguments) =
              Inr [TextContent ''text''
                     (''{"error": "Unknown tool: '' @ concat (map json_escape_char name) @ ''"}'')])\<close>
proof -
  have calls: "snd (call_tool e name arguments) = [BrokerCall (broker_request e)]"
  proof (cases "fetch_client e")
    case (Pair r calls)
    then have c: "calls = [BrokerCall (broker_request e)]"
      using fetch_client_calls [of e] by simp
    show ?thesis
    proof (cases r)
      case (Inl err)
      with Pair c show ?thesis by (simp add: call_tool_failed)
    next
      case (Inr client)
      with Pair c show ?thesis
        by (simp add: call_tool_client unknown_name_try [OF assms])
    qed
  qed
  have \<open>fst (call_tool e name arguments) =
              Inr [TextContent ''text''
                     (''{"error": "Unknown tool: '' @ concat (map json_escape_char name) @ ''"}'')]\<close>
    if "fetch_client e = (Inr client, cs)" for client cs
    using that
    by (simp add: call_tool_client unknown_name_try [OF assms] error_result_def text_result_def
        json_quote_def json_escape_char_def)
  with calls show ?thesis by blast
qed

theorem unknown_tool_witness:
  \<open>call_tool (example_env (replied 200 example_credentials) (Failed []))
       ''slack_delete_message'' [] =
     (Inr [TextContent ''text'' ''{"error": "Unknown tool: slack_delete_message"}''],
      [BrokerCall example_broker_request])\<close>
proof -
  have "''slack_delete_message'' \<notin> set (map tool_name TOOLS)"
    by (simp add: TOOLS_def)
  from unknown_tool [OF this, of "example_env (replied 200 example_credentials) (Failed [])" "[]"]
  show ?thesis
    using example_fetch [of "Failed []"]
    by (simp add: example_broker_request json_escape_char_def prod_eq_iff)
qed

section \<open>Validation of required arguments\<close>

text \<open>
  Claim C4, as stated: for every operation with required parameters, a call in which a
  required argument is absent or empty returns an error envelope whose message names the
  missing arguments, and the messaging platform is never invoked. The credentials are
  fetched before the arguments are looked at, so the outcome of the validation is reached
  only when that fetch succeeds: with the broker unreachable and \<^verbatim>\<open>text\<close> absent,
  \<^verbatim>\<open>slack_post_message\<close> returns no envelope naming anything. And the message does not
  single out what is missing: with \<^verbatim>\<open>channel_id\<close> given and \<^verbatim>\<open>text\<close> absent it is the fixed
  text of the operation, which names both.
\<close>

theorem missing_argument_counterexample:
  \<open>call_tool (example_env (Failed ''connection refused'') (Failed []))
       ''slack_post_message'' [(''channel_id'', JStr ''C123'')] =
     (Inl (TransportError ''connection refused''), [BrokerCall example_broker_request]) \<and>
   call_tool (example_env (replied 200 example_credentials) (Failed []))
       ''slack_post_message'' [(''channel_id'', JStr ''C123'')] =
     (Inr [TextContent ''text''
             ''{"error": "Missing required arguments: channel_id and text"}''],
      [BrokerCall example_broker_request])\<close>
proof -
  have "call_tool_try (example_env (replied 200 example_credentials) (Failed []))
          example_client ''slack_post_message'' [(''channel_id'', JStr ''C123'')] =
        (Inl (ValueError ''Missing required arguments: channel_id and text''), [])"
    by (simp add: try_post_message dict_get_def)
  then show ?thesis
    by (simp add: call_tool_failed [OF example_fetch_failed] call_tool_client [OF example_fetch]
        error_result_def text_result_def json_quote_def json_escape_char_def)
qed

text \<open>
  Claim C4, amended. Take any registered tool whose schema lists required arguments, and any
  argument mapping in which one of them is absent or empty (or otherwise false: \<^verbatim>\<open>null\<close>,
  zero, an empty list). Then no call reaches the messaging platform: the only outbound call
  is the credential fetch. Whenever the client could be constructed from the fetched
  credentials, the content returned is a single text item carrying \<^verbatim>\<open>{"error": msg}\<close>,
  where \<open>msg\<close> is the fixed text of the operation: it starts with
  \<^verbatim>\<open>Missing required argument\<close> and names every required argument of the operation, the
  missing ones among them, whichever of them is missing.
\<close>

theorem missing_required_argument:
  assumes "t \<in> set TOOLS" and "a \<in> set (required_arguments t)"
    and "\<not> truthy (dict_get arguments a JNull)"
  shows "snd (call_tool e (tool_name t) arguments) = [BrokerCall (broker_request e)] \<and>
         (\<forall>client calls. fetch_client e = (Inr client, calls) \<longrightarrow>
            (\<exists>msg. fst (call_tool e (tool_name t) arguments) =
                     Inr [TextContent ''text'' (json_dumps (JObj [(''error'', JStr msg)]))] \<and>
                   (tool_name t, msg) \<in> set
             [(''slack_post_message'', ''Missing required arguments: channel_id and text''),
              (''slack_reply_to_thread'',
               ''Missing required arguments: channel_id, thread_ts, and text''),
              (''slack_add_reaction'',
               ''Missing required arguments: channel_id, timestamp, and reaction''),
              (''slack_get_channel_history'', ''Missing required argument: channel_id''),
              (''slack_get_thread_replies'',
               ''Missing required arguments: channel_id and thread_ts''),
              (''slack_get_user_profile'', ''Missing required argument: user_id''),
              (''get_conversation_info'', ''Missing required argument: channel_id'')] \<and>
                   prefix ''Missing required argument'' msg \<and>
                   (\<forall>b \<in> set (required_arguments t). sublist b msg)))"
proof -
  have calls: "snd (call_tool e (tool_name t) arguments) = [BrokerCall (broker_request e)]"
  proof (cases "fetch_client e")
    case (Pair r calls)
    then have c: "calls = [BrokerCall (broker_request e)]"
      using fetch_client_calls [of e] by simp
    show ?thesis
    proof (cases r)
      case (Inl err)
      with Pair c show ?thesis by (simp add: call_tool_failed)
    next
      case (Inr client)
      obtain msg where "call_tool_try e client (tool_name t) arguments = (Inl (ValueError msg), [])"
        using missing_argument_try [OF assms] by blast
      with Pair c Inr show ?thesis
        by (simp add: call_tool_client)
    qed
  qed
  have "\<exists>msg. fst (call_tool e (tool_name t) arguments) =
                     Inr [TextContent ''text'' (json_dumps (JObj [(''error'', JStr msg)]))] \<and>
                   (tool_name t, msg) \<in> set
             [(''slack_post_message'', ''Missing required arguments: channel_id and text''),
              (''slack_reply_to_thread'',
               ''Missing required arguments: channel_id, thread_ts, and text''),
              (''slack_add_reaction'',
               ''Missing required arguments: channel_id, timestamp, and reaction''),
              (''slack_get_channel_history'', ''Missing required argument: channel_id''),
              (''slack_get_thread_replies'',
               ''Missing required arguments: channel_id and thread_ts''),
              (''slack_get_user_profile'', ''Missing required argument: user_id''),
              (''get_conversation_info'', ''Missing required argument: channel_id'')] \<and>
                   prefix ''Missing required argument'' msg \<and>
                   (\<forall>b \<in> set (required_arguments t). sublist b msg)"
    if "fetch_client e = (Inr client, cs)" for client cs
  proof -
    obtain msg where m: "call_tool_try e client (tool_name t) arguments = (Inl (ValueError msg), [])"
        "(tool_name t, msg) \<in> set
             [(''slack_post_message'', ''Missing required arguments: channel_id and text''),
              (''slack_reply_to_thread'',
               ''Missing required arguments: channel_id, thread_ts, and text''),
              (''slack_add_reaction'',
               ''Missing required arguments: channel_id, timestamp, and reaction''),
              (''slack_get_channel_history'', ''Missing required argument: channel_id''),
              (''slack_get_thread_replies'',
               ''Missing required arguments: channel_id and thread_ts''),
              (''slack_get_user_profile'', ''Missing required argument: user_id''),
              (''get_conversation_info'', ''Missing required argument: channel_id'')]"
        "prefix ''Missing required argument'' msg"
        "\<forall>b \<in> set (required_arguments t). sublist b msg"
      using missing_argument_try [OF assms] by blast
    have "fst (call_tool e (tool_name t) arguments) =
            Inr [TextContent ''text'' (json_dumps (JObj [(''error'', JStr msg)]))]"
      using that m(1) by (simp add: call_tool_client error_result_def text_result_def)
    with m(2,3,4) show ?thesis by blast
  qed
  with calls show ?thesis by blast
qed

theorem missing_required_argument_witness:
  \<open>call_tool (example_env (replied 200 example_credentials) (Failed []))
       ''slack_post_message'' [(''channel_id'', JStr ''C123''), (''text'', JStr [])] =
     (Inr [TextContent ''text''
             ''{"error": "Missing required arguments: channel_id and text"}''],
      [BrokerCall example_broker_request]) \<and>
   snd (call_tool (example_env (Failed ''connection refused'') (Failed []))
          ''slack_post_message'' [(''channel_id'', JStr ''C123'')]) =
     [BrokerCall example_broker_request]\<close>
proof -
  let ?t = "TOOLS ! 1"
  have t: "?t \<in> set TOOLS" by (simp add: TOOLS_def)
  have n: "tool_name ?t = ''slack_post_message''" by (simp add: TOOLS_def)
  have a: "''text'' \<in> set (required_arguments ?t)"
    by (simp add: TOOLS_def required_arguments_def dict_get_def)
  have m1: "\<not> truthy (dict_get [(''channel_id'', JStr ''C123''), (''text'', JStr [])] ''text'' JNull)"
    by (simp add: dict_get_def)
  have m2: "\<not> truthy (dict_get [(''channel_id'', JStr ''C123'')] ''text'' JNull)"
    by (simp add: dict_get_def)
  have direct: "call_tool_try (example_env (replied 200 example_credentials) (Failed []))
       example_client ''slack_post_message'' [(''channel_id'', JStr ''C123''), (''text'', JStr [])] =
       (Inl (ValueError ''Missing required arguments: channel_id and text''), [])"
    by (simp add: call_tool_try_def dict_get_def)
  from missing_required_argument [OF t a m1, of "example_env (replied 200 example_credentials) (Failed [])"]
       missing_required_argument [OF t a m2, of "example_env (Failed ''connection refused'') (Failed [])"]
  show ?thesis
    unfolding n
    using example_fetch [of "Failed []"] direct
    by (simp add: example_broker_request call_tool_client error_result_def text_result_def
        json_quote_def json_escape_char_def prod_eq_iff)
qed

section \<open>The content of a successful call\<close>

text \<open>
  Claim C8, as stated: on a successful remote call the text returned is the serialization
  of the raw remote result, unmodified. For \<^verbatim>\<open>get_conversation_info\<close> it is not: when the
  platform answers \<^verbatim>\<open>{"ok": true, "channel": {"id": "C1"}}\<close> the text returned is
  \<^verbatim>\<open>{"id": "C1"}\<close>, the channel member alone.
\<close>

theorem conversation_info_not_raw_counterexample:
  \<open>fst (call_tool (example_env (replied 200 example_credentials)
                              (replied 200 example_info_reply))
         ''get_conversation_info'' [(''channel_id'', JStr ''C1'')]) =
     Inr [TextContent ''text'' ''{"id": "C1"}''] \<and>
   json_dumps example_info_reply = ''{"ok": true, "channel": {"id": "C1"}}''\<close>
proof -
  let ?e = "example_env (replied 200 example_credentials) (replied 200 example_info_reply)"
  let ?q = "slack_get example_client ''https://slack.com/api/conversations.info''
              [(''channel'', JStr ''C1'')]"
  have sc: "slack_call ?e ?q = (Inr example_info_reply, [SlackCall ?q])"
    by (rule example_slack_call) (simp add: slack_get_def)
  have "get_conversation_info ?e example_client (JStr ''C1'') =
          (Inr (JObj [(''id'', JStr ''C1'')]), [SlackCall ?q])"
    by (simp add: get_conversation_info_def sc)
       (simp add: example_info_reply_def channel_or_none_def dict_get_def)
  then have "fst (call_tool_try ?e example_client ''get_conversation_info''
                    [(''channel_id'', JStr ''C1'')]) =
             Inr (text_result (JObj [(''id'', JStr ''C1'')]))"
    by (simp add: try_conversation_info dict_get_def)
  then have "fst (call_tool ?e ''get_conversation_info'' [(''channel_id'', JStr ''C1'')]) =
     Inr (text_result (JObj [(''id'', JStr ''C1'')]))"
    by (simp add: call_tool_client [OF example_fetch])
  then show ?thesis
    by (simp add: text_result_def example_info_reply_def json_quote_def json_escape_char_def)
qed

text \<open>
  Claim C8, amended. Let the client be constructed, let the invocation make a call to the
  messaging platform, and let that call be answered with a body that decodes to \<open>data\<close>.
  For every tool other than \<^verbatim>\<open>get_conversation_info\<close> the content returned is the single
  item of type \<^verbatim>\<open>text\<close> whose text is \<^verbatim>\<open>json.dumps(data)\<close>. For \<^verbatim>\<open>get_conversation_info\<close> it
  is the serialization of the channel member of \<open>data\<close> when the answer is ok and the
  channel is not archived, the sentinel \<^verbatim>\<open>{"error": "Channel not found or is archived"}\<close>
  when the method returns \<^verbatim>\<open>None\<close>, and an error envelope when reading the answer raises.
  The concrete scenario of the claim holds: posting \<^verbatim>\<open>hi\<close> to \<^verbatim>\<open>C123\<close> against a platform
  answering \<^verbatim>\<open>{"ok": true, "ts": "1.1"}\<close> yields exactly that text.
\<close>

theorem successful_call_content:
  assumes "fetch_client e = (Inr client, calls)"
    and "snd (call_tool e name arguments) = calls @ [SlackCall r]"
    and "network e r = Replied resp" and "json_result resp = Inr data"
  shows "fst (call_tool e name arguments) =
           Inr (if name = ''get_conversation_info''
                then (case channel_or_none data of
                        Inl err \<Rightarrow> error_result err
                      | Inr channel \<Rightarrow>
                          if truthy channel then text_result channel
                          else text_result
                                 (JObj [(''error'', JStr ''Channel not found or is archived'')]))
                else [TextContent ''text'' (json_dumps data)])"
proof -
  have tr: "snd (call_tool_try e client name arguments) = [SlackCall r]"
    using assms(1,2) by (simp add: call_tool_client)
  show ?thesis
  proof (cases "name = ''get_conversation_info''")
    case True
    have "fst (call_tool_try e client ''get_conversation_info'' arguments) =
           (case channel_or_none data of
              Inl err \<Rightarrow> Inl err
            | Inr channel \<Rightarrow>
                Inr (if truthy channel then text_result channel
                     else text_result
                            (JObj [(''error'', JStr ''Channel not found or is archived'')])))"
      using conversation_info_try_replied [OF _ assms(3,4)] tr True by simp
    then show ?thesis
      using assms(1) True
      by (cases "channel_or_none data") (simp_all add: call_tool_client)
  next
    case False
    from call_tool_try_shape [of e client name arguments] tr False
    have "call_tool_try e client name arguments = returning (slack_call e r)"
      by fastforce
    then have "fst (call_tool_try e client name arguments) = Inr (text_result data)"
      using slack_call_replied [OF assms(3,4)] by (simp add: returning_def)
    then show ?thesis
      using assms(1) False by (simp add: call_tool_client text_result_def)
  qed
qed

theorem successful_call_content_witness:
  \<open>fst (call_tool (example_env (replied 200 example_credentials)
                              (replied 200 example_post_reply))
         ''slack_post_message'' [(''channel_id'', JStr ''C123''), (''text'', JStr ''hi'')]) =
     Inr [TextContent ''text'' ''{"ok": true, "ts": "1.1"}'']\<close>
proof -
  let ?e = "example_env (replied 200 example_credentials) (replied 200 example_post_reply)"
  let ?a = "[(''channel_id'', JStr ''C123''), (''text'', JStr ''hi'')]"
  have tr: "snd (call_tool ?e ''slack_post_message'' ?a) =
              [BrokerCall example_broker_request] @ [SlackCall example_post_request]"
    by (simp add: example_post_message)
  have net: "network ?e example_post_request =
               Replied \<lparr>status_code = 200, status_text = [],
                        json_result = Inr example_post_reply\<rparr>"
    using example_network_slack [of example_post_request]
    by (simp add: example_post_request_def replied_def)
  have js: "json_result \<lparr>status_code = 200, status_text = [],
                        json_result = Inr example_post_reply\<rparr> = Inr example_post_reply"
    by simp
  from successful_call_content [OF example_fetch tr net js]
  show ?thesis
    by (simp add: example_post_reply_def json_quote_def json_escape_char_def)
qed

section \<open>One credential fetch per invocation\<close>

text \<open>
  Claim C9. For every environment, tool name and argument mapping, the outbound calls of an
  invocation of \<^verbatim>\<open>call_tool\<close> start with the credential fetch, whose parameters ask the
  broker for a refresh (\<^verbatim>\<open>refresh_token=true\<close>); it is the only call to the broker. At most
  one call follows, to the messaging platform, and it is the call of the dispatch run with
  the client that this invocation constructed from the token and the team that the broker
  returned to this very fetch: the client's headers carry that token and its team is that
  team, the call's headers are these headers, and where the team is forwarded
  (\<^verbatim>\<open>slack_list_channels\<close>, \<^verbatim>\<open>slack_get_users\<close>) the call's URL carries that team.
  \<^verbatim>\<open>call_tool\<close> takes nothing from an earlier invocation and keeps nothing for a later one:
  its outcome is a function of the environment, the name and the arguments.
\<close>

theorem credentials_fetched_first:
  "\<exists>rest. snd (call_tool e name arguments) = BrokerCall (broker_request e) # rest \<and>
     map_of (req_params (broker_request e)) ''refresh_token'' = Some (JStr ''true'') \<and>
     (rest = [] \<or>
      (\<exists>r resp creds tok tid.
         rest = [SlackCall r] \<and>
         network e (broker_request e) = Replied resp \<and> json_result resp = Inr creds \<and>
         get_nested creds ''credentials'' ''access_token'' = Inr tok \<and>
         get_nested creds ''connection_config'' ''team.id'' = Inr tid \<and>
         fst (fetch_client e) = Inr (SlackClient tok tid) \<and>
         bot_headers (SlackClient tok tid) =
           [(''Authorization'', ''Bearer '' @ py_str tok),
            (''Content-Type'', ''application/json'')] \<and>
         team_id (SlackClient tok tid) = tid \<and>
         rest = snd (call_tool_try e (SlackClient tok tid) name arguments) \<and>
         req_headers r =
           [(''Authorization'', ''Bearer '' @ py_str tok),
            (''Content-Type'', ''application/json'')] \<and>
         (name = ''slack_list_channels'' \<longrightarrow>
            (\<exists>m. min_200 (dict_get arguments ''limit'' (JInt 100)) = Inr m \<and>
                 req_url r =
                   ''https://slack.com/api/conversations.list?types=public_channel&exclude_archived=true&limit=''
                   @ quote_plus (py_str m) @ ''&team_id='' @ quote_plus (py_str tid)
                   @ (if truthy (dict_get arguments ''cursor'' JNull)
                      then ''&cursor='' @ quote_plus (py_str (dict_get arguments ''cursor'' JNull))
                      else []))) \<and>
         (name = ''slack_get_users'' \<longrightarrow>
            (\<exists>m. min_200 (dict_get arguments ''limit'' (JInt 100)) = Inr m \<and>
                 req_url r =
                   ''https://slack.com/api/users.list?limit=''
                   @ quote_plus (py_str m) @ ''&team_id='' @ quote_plus (py_str tid)
                   @ (if truthy (dict_get arguments ''cursor'' JNull)
                      then ''&cursor='' @ quote_plus (py_str (dict_get arguments ''cursor'' JNull))
                      else [])))))"
proof -
  have p: "map_of (req_params (broker_request e)) ''refresh_token'' = Some (JStr ''true'')"
    by (simp add: broker_request_def nango_request_def Let_def)
  show ?thesis
  proof (cases "fetch_client e")
    case (Pair res calls)
    then have c: "calls = [BrokerCall (broker_request e)]"
      using fetch_client_calls [of e] by simp
    show ?thesis
    proof (cases res)
      case (Inl err)
      with Pair c p show ?thesis by (simp add: call_tool_failed)
    next
      case (Inr client)
      with Pair have f: "fetch_client e = (Inr client, calls)" by simp
      from fetch_client_origin [OF f] obtain resp creds tok tid where
        o: "network e (broker_request e) = Replied resp" "json_result resp = Inr creds"
           "get_nested creds ''credentials'' ''access_token'' = Inr tok"
           "get_nested creds ''connection_config'' ''team.id'' = Inr tid"
           and cl: "client = SlackClient tok tid"
        by blast
      let ?c = "SlackClient tok tid"
      let ?rest = "snd (call_tool_try e ?c name arguments)"
      have fc: "fst (fetch_client e) = Inr ?c"
        using f cl by simp
      have h: "bot_headers ?c =
           [(''Authorization'', ''Bearer '' @ py_str tok),
            (''Content-Type'', ''application/json'')]"
        and t: "team_id ?c = tid"
        by (simp_all add: SlackClient_def)
      have s: "snd (call_tool e name arguments) = BrokerCall (broker_request e) # ?rest"
        using f c cl by (simp add: call_tool_client)
      from call_tool_try_shape [of e ?c name arguments]
      consider "?rest = []"
        | r where "?rest = [SlackCall r]" "req_headers r = bot_headers ?c"
        by fastforce
      then show ?thesis
      proof cases
        case 1
        with s p show ?thesis by simp
      next
        case 2
        have lc: "\<exists>m. min_200 (dict_get arguments ''limit'' (JInt 100)) = Inr m \<and>
                 req_url r =
                   ''https://slack.com/api/conversations.list?types=public_channel&exclude_archived=true&limit=''
                   @ quote_plus (py_str m) @ ''&team_id='' @ quote_plus (py_str tid)
                   @ (if truthy (dict_get arguments ''cursor'' JNull)
                      then ''&cursor='' @ quote_plus (py_str (dict_get arguments ''cursor'' JNull))
                      else [])"
          if "name = ''slack_list_channels''"
          using list_channels_url [of e ?c arguments r] 2(1) that unfolding t by simp
        have us: "\<exists>m. min_200 (dict_get arguments ''limit'' (JInt 100)) = Inr m \<and>
                 req_url r =
                   ''https://slack.com/api/users.list?limit=''
                   @ quote_plus (py_str m) @ ''&team_id='' @ quote_plus (py_str tid)
                   @ (if truthy (dict_get arguments ''cursor'' JNull)
                      then ''&cursor='' @ quote_plus (py_str (dict_get arguments ''cursor'' JNull))
                      else [])"
          if "name = ''slack_get_users''"
          using get_users_url [of e ?c arguments r] 2(1) that unfolding t by simp
        have hr: "req_headers r =
           [(''Authorization'', ''Bearer '' @ py_str tok),
            (''Content-Type'', ''application/json'')]"
          using 2(2) h by simp
        show ?thesis
          apply (rule exI [of _ ?rest])
          apply (intro conjI)
            apply (rule s)
           apply (rule p)
          apply (rule disjI2)
          apply (rule exI [of _ r], rule exI [of _ resp], rule exI [of _ creds],
                 rule exI [of _ tok], rule exI [of _ tid])
          apply (intro conjI impI)
                    apply (rule 2(1))
                   apply (rule o(1))
                  apply (rule o(2))
                 apply (rule o(3))
                apply (rule o(4))
               apply (rule fc)
              apply (rule h)
             apply (rule t)
            apply (rule refl)
           apply (rule hr)
          apply (erule lc)
          apply (erule us)
          done
      qed
    qed
  qed
qed

theorem credentials_fetched_first_witness:
  "snd (call_tool (example_env (replied 200 example_credentials)
                              (replied 200 example_ok_reply))
         ''slack_list_channels'' [(''limit'', JInt 500)]) =
     [BrokerCall example_broker_request, SlackCall example_list_request] \<and>
   snd (call_tool (example_env (replied 200 example_credentials)
                              (replied 200 example_post_reply))
         ''slack_post_message'' [(''channel_id'', JStr ''C123''), (''text'', JStr ''hi'')]) =
     [BrokerCall example_broker_request, SlackCall example_post_request] \<and>
   map_of (req_params example_broker_request) ''refresh_token'' = Some (JStr ''true'') \<and>
   req_headers example_list_request = bot_headers (SlackClient (JStr ''xoxb-1'') (JStr ''T1'')) \<and>
   req_headers example_post_request = bot_headers (SlackClient (JStr ''xoxb-1'') (JStr ''T1'')) \<and>
   team_id (SlackClient (JStr ''xoxb-1'') (JStr ''T1'')) = JStr ''T1'' \<and>
   req_url example_list_request =
     ''https://slack.com/api/conversations.list?types=public_channel&exclude_archived=true&limit=200&team_id=T1''"
  using credentials_fetched_first
          [of "example_env (replied 200 example_credentials) (replied 200 example_ok_reply)"
              "''slack_list_channels''" "[(''limit'', JInt 500)]"]
        credentials_fetched_first
          [of "example_env (replied 200 example_credentials) (replied 200 example_post_reply)"
              "''slack_post_message''" "[(''channel_id'', JStr ''C123''), (''text'', JStr ''hi'')]"]
  by (simp add: example_list_channels example_post_message example_broker_request_def
      example_post_request_def example_list_request_def SlackClient_def)

section \<open>The list operations\<close>

text \<open>
  Claim C6. Let the client be constructed. When the arguments supply an integer \<open>n\<close> as
  \<^verbatim>\<open>limit\<close>, or supply no \<^verbatim>\<open>limit\<close> (then \<open>n\<close> is the default 100), both
  \<^verbatim>\<open>slack_list_channels\<close> and \<^verbatim>\<open>slack_get_users\<close> make exactly one call to the messaging
  platform, and the \<^verbatim>\<open>limit\<close> parameter in its URL is the decimal numeral of the minimum of
  \<open>n\<close> and 200, followed directly by the next parameter. A limit of 500 is forwarded as 200.
\<close>

theorem limit_clamped_to_200:
  assumes "fetch_client e = (Inr client, calls)"
    and "map_of arguments ''limit'' = Some (JInt n) \<or>
         (map_of arguments ''limit'' = None \<and> n = 100)"
  shows "(\<exists>r. snd (call_tool e ''slack_list_channels'' arguments) = calls @ [SlackCall r] \<and>
              prefix (''https://slack.com/api/conversations.list?types=public_channel&exclude_archived=true&limit=''
                      @ str_int (min n 200) @ ''&team_id='') (req_url r)) \<and>
         (\<exists>r. snd (call_tool e ''slack_get_users'' arguments) = calls @ [SlackCall r] \<and>
              prefix (''https://slack.com/api/users.list?limit=''
                      @ str_int (min n 200) @ ''&team_id='') (req_url r))"
proof -
  have l: "dict_get arguments ''limit'' (JInt 100) = JInt n"
    using assms(2) by (auto simp: dict_get_def)
  have m: "min_200 (JInt n) = Inr (JInt (min n 200))"
    by (simp add: min_def)
  have s: "quote_plus (py_str (JInt (min n 200))) = str_int (min n 200)"
    by (simp add: quote_plus_str_int)
  have ch: "snd (call_tool e ''slack_list_channels'' arguments) =
      calls @ snd (get_channels e client (JInt n) (dict_get arguments ''cursor'' JNull))"
    using assms(1) l by (simp add: call_tool_client list_channels_calls)
  have us: "snd (call_tool e ''slack_get_users'' arguments) =
      calls @ snd (get_users e client (JInt n) (dict_get arguments ''cursor'' JNull))"
    using assms(1) l by (simp add: call_tool_client get_users_tool_calls)
  have "\<exists>r. snd (call_tool e ''slack_list_channels'' arguments) = calls @ [SlackCall r] \<and>
              prefix (''https://slack.com/api/conversations.list?types=public_channel&exclude_archived=true&limit=''
                      @ str_int (min n 200) @ ''&team_id='') (req_url r)"
    unfolding ch get_channels_request [OF m] slack_call_calls s
    by (rule exI, rule conjI, rule refl) simp
  moreover
  have "\<exists>r. snd (call_tool e ''slack_get_users'' arguments) = calls @ [SlackCall r] \<and>
              prefix (''https://slack.com/api/users.list?limit=''
                      @ str_int (min n 200) @ ''&team_id='') (req_url r)"
    unfolding us get_users_request [OF m] slack_call_calls s
    by (rule exI, rule conjI, rule refl) simp
  ultimately show ?thesis by (rule conjI)
qed

theorem limit_clamped_to_200_witness:
  "(\<exists>r. snd (call_tool (example_env (replied 200 example_credentials)
                                      (replied 200 example_ok_reply))
                ''slack_list_channels'' [(''limit'', JInt 500)]) =
          [BrokerCall example_broker_request] @ [SlackCall r] \<and>
        prefix ''https://slack.com/api/conversations.list?types=public_channel&exclude_archived=true&limit=200&team_id=''
               (req_url r)) \<and>
   (\<exists>r. snd (call_tool (example_env (replied 200 example_credentials)
                                      (replied 200 example_ok_reply))
                ''slack_get_users'' [(''limit'', JInt 500)]) =
          [BrokerCall example_broker_request] @ [SlackCall r] \<and>
        prefix ''https://slack.com/api/users.list?limit=200&team_id='' (req_url r)) \<and>
   (\<exists>r. snd (call_tool (example_env (replied 200 example_credentials)
                                      (replied 200 example_ok_reply))
                ''slack_get_users'' []) =
          [BrokerCall example_broker_request] @ [SlackCall r] \<and>
        prefix ''https://slack.com/api/users.list?limit=100&team_id='' (req_url r))"
proof -
  have a: "map_of [(''limit'', JInt 500)] ''limit'' = Some (JInt 500) \<or>
           (map_of [(''limit'', JInt 500)] ''limit'' = None \<and> (500::int) = 100)"
    by simp
  have b: "map_of ([] :: (string \<times> json) list) ''limit'' = Some (JInt 100) \<or>
           (map_of ([] :: (string \<times> json) list) ''limit'' = None \<and> (100::int) = 100)"
    by simp
  have s: "str_int 200 = ''200''" "str_int 100 = ''100''"
    by (simp_all add: str_int_def digits.simps)
  from limit_clamped_to_200 [OF example_fetch a, of "replied 200 example_ok_reply"]
       limit_clamped_to_200 [OF example_fetch b, of "replied 200 example_ok_reply"]
  show ?thesis
    by (simp add: s)
qed

text \<open>
  Claim C10. Whatever the arguments, every call that the \<^verbatim>\<open>slack_list_channels\<close> tool, and
  the method \<^verbatim>\<open>get_channels\<close> behind it, makes to the messaging platform is a GET whose URL
  starts with \<^verbatim>\<open>conversations.list?types=public_channel&exclude_archived=true&\<close>. The values
  that follow are percent-encoded by \<^verbatim>\<open>urlencode\<close>.
\<close>

theorem list_channels_fixed_parameters:
  "(\<forall>r. SlackCall r \<in> set (snd (call_tool e ''slack_list_channels'' arguments)) \<longrightarrow>
        req_method r = GET \<and>
        prefix ''https://slack.com/api/conversations.list?types=public_channel&exclude_archived=true&''
               (req_url r)) \<and>
   (\<forall>r. SlackCall r \<in> set (snd (get_channels e c limit cursor)) \<longrightarrow>
        req_method r = GET \<and>
        prefix ''https://slack.com/api/conversations.list?types=public_channel&exclude_archived=true&''
               (req_url r))"
proof -
  have "req_method r = GET \<and>
        prefix ''https://slack.com/api/conversations.list?types=public_channel&exclude_archived=true&''
               (req_url r)"
    if r: "SlackCall r \<in> set (snd (call_tool e ''slack_list_channels'' arguments))" for r
  proof (cases "fetch_client e")
    case (Pair res calls)
    then have c: "calls = [BrokerCall (broker_request e)]"
      using fetch_client_calls [of e] by simp
    show ?thesis
    proof (cases res)
      case (Inl err)
      with Pair c r show ?thesis by (simp add: call_tool_failed)
    next
      case (Inr client)
      with Pair c r have "SlackCall r \<in> set (snd (get_channels e client
          (dict_get arguments ''limit'' (JInt 100)) (dict_get arguments ''cursor'' JNull)))"
        by (simp add: call_tool_client list_channels_calls)
      then show ?thesis by (rule get_channels_fixed)
    qed
  qed
  then show ?thesis
    using get_channels_fixed by blast
qed

theorem list_channels_fixed_parameters_witness:
  "SlackCall example_list_request \<in>
     set (snd (call_tool (example_env (replied 200 example_credentials)
                                      (replied 200 example_ok_reply))
                 ''slack_list_channels'' [(''limit'', JInt 500)])) \<and>
   req_method example_list_request = GET \<and>
   prefix ''https://slack.com/api/conversations.list?types=public_channel&exclude_archived=true&''
          (req_url example_list_request)"
proof -
  have "SlackCall example_list_request \<in>
     set (snd (call_tool (example_env (replied 200 example_credentials)
                                      (replied 200 example_ok_reply))
                 ''slack_list_channels'' [(''limit'', JInt 500)]))"
    by (simp add: example_list_channels)
  with list_channels_fixed_parameters
         [of "example_env (replied 200 example_credentials) (replied 200 example_ok_reply)"
             "[(''limit'', JInt 500)]"]
  show ?thesis by blast
qed

section \<open>Conversation info\<close>

text \<open>
  Claim C7. Let the client be constructed, let a channel id be given and let the platform
  answer the \<^verbatim>\<open>conversations.info\<close> request with a JSON object. When the answer is not ok
  or holds no channel (the platform's report of a channel that does not exist), or when its
  channel is flagged \<^verbatim>\<open>is_archived\<close>, the content returned is the one sentinel
  \<^verbatim>\<open>{"error": "Channel not found or is archived"}\<close>, the same text in both cases. When the
  answer is ok and its channel is a non-empty object that is not archived, the content is
  the serialization of that channel. The method \<^verbatim>\<open>get_conversation_info\<close> returns a value
  other than \<^verbatim>\<open>None\<close> only when the answer is ok, holds a channel, and the channel is not
  archived; the value is then that channel.
\<close>

theorem conversation_info_not_found:
  assumes "fetch_client e = (Inr client, calls)"
    and "truthy (dict_get arguments ''channel_id'' JNull)"
    and "network e (slack_get client ''https://slack.com/api/conversations.info''
                      [(''channel'', dict_get arguments ''channel_id'' JNull)]) = Replied resp"
    and "json_result resp = Inr (JObj d)"
  shows \<open>(\<not> truthy (dict_get d ''ok'' JNull) \<or> \<not> truthy (dict_get d ''channel'' JNull) \<or>
          (\<exists>c. dict_get d ''channel'' JNull = JObj c \<and>
               truthy (dict_get c ''is_archived'' JNull)) \<longrightarrow>
            fst (call_tool e ''get_conversation_info'' arguments) =
              Inr [TextContent ''text'' ''{"error": "Channel not found or is archived"}'']) \<and>
         (\<forall>c. truthy (dict_get d ''ok'' JNull) \<and> dict_get d ''channel'' JNull = JObj c \<and>
              c \<noteq> [] \<and> \<not> truthy (dict_get c ''is_archived'' JNull) \<longrightarrow>
            fst (call_tool e ''get_conversation_info'' arguments) =
              Inr [TextContent ''text'' (json_dumps (JObj c))]) \<and>
         (\<forall>v. fst (get_conversation_info e client (dict_get arguments ''channel_id'' JNull)) =
                Inr v \<and> v \<noteq> JNull \<longrightarrow>
            truthy (dict_get d ''ok'' JNull) \<and> v = dict_get d ''channel'' JNull \<and>
            (\<exists>c. v = JObj c \<and> \<not> truthy (dict_get c ''is_archived'' JNull)))\<close>
proof -
  let ?id = "dict_get arguments ''channel_id'' JNull"
  let ?ok = "dict_get d ''ok'' JNull"
  let ?ch = "dict_get d ''channel'' JNull"
  note g = conversation_info_replied [OF assms(3,4)]
  have ct: "fst (call_tool e ''get_conversation_info'' arguments) =
          Inr (case channel_or_none (JObj d) of
                 Inl err \<Rightarrow> error_result err
               | Inr response \<Rightarrow>
                   if truthy response then text_result response
                   else text_result
                          (JObj [(''error'', JStr ''Channel not found or is archived'')]))"
    using assms(2)
    by (cases "channel_or_none (JObj d)")
       (simp_all add: call_tool_client [OF assms(1)] try_conversation_info g)
  have none: "channel_or_none (JObj d) = Inr JNull"
    if "\<not> truthy ?ok \<or> \<not> truthy ?ch \<or>
        (\<exists>c. ?ch = JObj c \<and> truthy (dict_get c ''is_archived'' JNull))"
    using that by (auto simp: channel_or_none_dict)
  have first: \<open>fst (call_tool e ''get_conversation_info'' arguments) =
              Inr [TextContent ''text'' ''{"error": "Channel not found or is archived"}'']\<close>
    if "\<not> truthy ?ok \<or> \<not> truthy ?ch \<or>
        (\<exists>c. ?ch = JObj c \<and> truthy (dict_get c ''is_archived'' JNull))"
    using none [OF that] by (simp add: ct sentinel_text)
  have second: "fst (call_tool e ''get_conversation_info'' arguments) =
              Inr [TextContent ''text'' (json_dumps (JObj c))]"
    if "truthy ?ok \<and> ?ch = JObj c \<and> c \<noteq> [] \<and> \<not> truthy (dict_get c ''is_archived'' JNull)"
    for c
  proof -
    have "channel_or_none (JObj d) = Inr (JObj c)"
      using that by (simp add: channel_or_none_dict)
    with that show ?thesis by (simp add: ct text_result_def)
  qed
  have third: "truthy ?ok \<and> v = ?ch \<and>
            (\<exists>c. v = JObj c \<and> \<not> truthy (dict_get c ''is_archived'' JNull))"
    if "fst (get_conversation_info e client ?id) = Inr v \<and> v \<noteq> JNull" for v
  proof -
    from that have v: "channel_or_none (JObj d) = Inr v" "v \<noteq> JNull"
      by (simp_all add: g)
    show ?thesis
    proof (cases ?ch)
      case (JObj c)
      with v have "truthy ?ok \<and> v = JObj c \<and> \<not> truthy (dict_get c ''is_archived'' JNull)"
        by (simp add: channel_or_none_dict split: if_splits)
      with JObj show ?thesis by simp
    qed (use v in \<open>simp_all add: channel_or_none_dict no_attribute_get_def split: if_splits\<close>)
  qed
  from first second third show ?thesis by blast
qed

theorem conversation_info_not_found_witness:
  \<open>fst (call_tool (example_env (replied 200 example_credentials)
                              (replied 200 example_archived_reply))
         ''get_conversation_info'' [(''channel_id'', JStr ''C1'')]) =
     Inr [TextContent ''text'' ''{"error": "Channel not found or is archived"}''] \<and>
   fst (call_tool (example_env (replied 200 example_credentials)
                              (replied 200 example_missing_reply))
         ''get_conversation_info'' [(''channel_id'', JStr ''C1'')]) =
     Inr [TextContent ''text'' ''{"error": "Channel not found or is archived"}''] \<and>
   fst (call_tool (example_env (replied 200 example_credentials)
                              (replied 200 example_info_reply))
         ''get_conversation_info'' [(''channel_id'', JStr ''C1'')]) =
     Inr [TextContent ''text'' ''{"id": "C1"}'']\<close>
proof -
  have t: "truthy (dict_get [(''channel_id'', JStr ''C1'')] ''channel_id'' JNull)"
    by (simp add: dict_get_def)
  have na: "network (example_env (replied 200 example_credentials)
                                  (replied 200 example_archived_reply))
              (slack_get example_client ''https://slack.com/api/conversations.info''
                 [(''channel'', dict_get [(''channel_id'', JStr ''C1'')] ''channel_id'' JNull)]) =
            Replied \<lparr>status_code = 200, status_text = [],
                     json_result = Inr example_archived_reply\<rparr>"
    by (rule example_info_network)
  have ja: "json_result \<lparr>status_code = 200, status_text = [],
                         json_result = Inr example_archived_reply\<rparr> =
            Inr (JObj [(''ok'', JBool True),
                       (''channel'', JObj [(''id'', JStr ''C1''), (''is_archived'', JBool True)])])"
    by (simp add: example_archived_reply_def)
  have nm: "network (example_env (replied 200 example_credentials)
                                  (replied 200 example_missing_reply))
              (slack_get example_client ''https://slack.com/api/conversations.info''
                 [(''channel'', dict_get [(''channel_id'', JStr ''C1'')] ''channel_id'' JNull)]) =
            Replied \<lparr>status_code = 200, status_text = [],
                     json_result = Inr example_missing_reply\<rparr>"
    by (rule example_info_network)
  have jm: "json_result \<lparr>status_code = 200, status_text = [],
                         json_result = Inr example_missing_reply\<rparr> =
            Inr (JObj [(''ok'', JBool False), (''error'', JStr ''channel_not_found'')])"
    by (simp add: example_missing_reply_def)
  have np: "network (example_env (replied 200 example_credentials)
                                  (replied 200 example_info_reply))
              (slack_get example_client ''https://slack.com/api/conversations.info''
                 [(''channel'', dict_get [(''channel_id'', JStr ''C1'')] ''channel_id'' JNull)]) =
            Replied \<lparr>status_code = 200, status_text = [],
                     json_result = Inr example_info_reply\<rparr>"
    by (rule example_info_network)
  have jp: "json_result \<lparr>status_code = 200, status_text = [],
                         json_result = Inr example_info_reply\<rparr> =
            Inr (JObj [(''ok'', JBool True), (''channel'', JObj [(''id'', JStr ''C1'')])])"
    by (simp add: example_info_reply_def)
  note archived = conversation_info_not_found [OF example_fetch t na ja]
  note missing = conversation_info_not_found [OF example_fetch t nm jm]
  note present = conversation_info_not_found [OF example_fetch t np jp]
  have a: \<open>fst (call_tool (example_env (replied 200 example_credentials)
                              (replied 200 example_archived_reply))
         ''get_conversation_info'' [(''channel_id'', JStr ''C1'')]) =
     Inr [TextContent ''text'' ''{"error": "Channel not found or is archived"}'']\<close>
    using archived by (simp add: dict_get_def)
  have m: \<open>fst (call_tool (example_env (replied 200 example_credentials)
                              (replied 200 example_missing_reply))
         ''get_conversation_info'' [(''channel_id'', JStr ''C1'')]) =
     Inr [TextContent ''text'' ''{"error": "Channel not found or is archived"}'']\<close>
    using missing by (simp add: dict_get_def)
  have p: \<open>fst (call_tool (example_env (replied 200 example_credentials)
                              (replied 200 example_info_reply))
         ''get_conversation_info'' [(''channel_id'', JStr ''C1'')]) =
     Inr [TextContent ''text'' ''{"id": "C1"}'']\<close>
    using present
    by (simp add: dict_get_def json_quote_def json_escape_char_def)
  from a m p show ?thesis by simp
qed

end
